theory Spec2Isabelle
  imports Main "HOL-Library.Word"
begin

section \<open>Login and renewal of the PCF auth plugin (path\_login.go)\<close>

text \<open>
  The handlers \<open>operationLoginUpdate\<close>, \<open>pathLoginRenew\<close> and their helpers
  \<open>validate\<close>, \<open>meetsBoundConstraints\<close>, \<open>matchesIPAddress\<close>, \<open>parseTime\<close> and
  \<open>getOrErr\<close> are embedded as HOL functions. A Go result \<open>(*logical.Response, error)\<close>
  is a value of the type \<open>response\<close>; the packages the handlers call (storage, certificate
  parsing, signature verification, the PCF API client, the clock) are fields of a record
  \<open>env\<close> that is passed to every function, so that each theorem holds for whatever those
  collaborators return.
\<close>

subsection \<open>Values\<close>

text \<open>
  A \<open>time.Time\<close> is the number of nanoseconds since the epoch. \<open>time.Now()\<close> and the two
  layouts accepted by \<open>parseTime\<close> (four-digit years) are far inside the range in which
  \<open>Time.Add\<close> does not saturate, so \<open>Add\<close> is addition of the signed value of the
  duration. A \<open>time.Duration\<close> is an \<open>int64\<close> count of nanoseconds: products and
  negations wrap, quotients truncate towards zero.
\<close>

type_synonym Time = int
type_synonym Duration = "64 word"

definition Second :: Duration where
  "Second = 1000000000"

definition Add :: "Time \<Rightarrow> Duration \<Rightarrow> Time" where
  "Add t d = t + sint d"

definition Before :: "Time \<Rightarrow> Time \<Rightarrow> bool" where
  "Before t u = (t < u)"

definition After :: "Time \<Rightarrow> Time \<Rightarrow> bool" where
  "After t u = (t > u)"

text \<open>Go's \<open>/\<close> on \<open>int64\<close>: the quotient truncated towards zero, wrapped to 64 bits.\<close>

definition go_div :: "Duration \<Rightarrow> Duration \<Rightarrow> Duration" where
  "go_div a b = word_of_int (sgn (sint a) * sgn (sint b) * (\<bar>sint a\<bar> div \<bar>sint b\<bar>))"

text \<open>A \<open>net.IP\<close> is a byte slice; \<open>nil\<close> is the empty list.\<close>

type_synonym IP = "8 word list"

definition v4InV6Prefix :: IP where
  "v4InV6Prefix = [0, 0, 0, 0, 0, 0, 0, 0, 0, 0, 0xff, 0xff]"

text \<open>
  \<open>net.IP.Equal\<close>: equal byte slices, or an IPv4 address and its 16-byte IPv4-in-IPv6
  form.
\<close>

definition IP_Equal :: "IP \<Rightarrow> IP \<Rightarrow> bool" where
  "IP_Equal ip x =
     (if length ip = length x then ip = x
      else if length ip = 4 \<and> length x = 16 then take 12 x = v4InV6Prefix \<and> ip = drop 12 x
      else if length ip = 16 \<and> length x = 4 then take 12 ip = v4InV6Prefix \<and> drop 12 ip = x
      else False)"

text \<open>
  \<open>strings.Split s sep\<close> for a one-character separator: the pieces of \<open>s\<close> between the
  occurrences of the separator; never an empty slice.
\<close>

fun Split :: "string \<Rightarrow> char \<Rightarrow> string list" where
  "Split [] sep = [[]]"
| "Split (c # cs) sep =
     (if c = sep then [] # Split cs sep
      else (c # hd (Split cs sep)) # tl (Split cs sep))"

text \<open>
  Error values. Every \<open>errors.New\<close>, \<open>fmt.Errorf\<close> and \<open>fmt.Sprintf\<close> of the file is a
  constructor that carries the arguments of its format string; \<open>Text\<close> is the
  \<open>Error()\<close> text of an error returned by a collaborator.
\<close>

datatype error =
    Text string
  | RoleNameRequired
  | NoMatchingRole
  | ErrPermissionDenied
  | SignatureRequired
  | CFInstanceCertRequired
  | SigningTimeRequired
  | CouldntParse string
  | NoCAConfigured
  | RequestTooOld Time Time Duration
  | RequestTooFarInFuture Time Time Duration
  | NoMatchingIPAddress
  | InstanceIDMismatch string "string list"
  | AppIDMismatch string "string list"
  | OrgIDMismatch string "string list"
  | SpaceIDMismatch string "string list"
  | CertAppIDNotAPIs string string
  | CertSpaceIDNotAPIs string string
  | CertOrgIDNotAPIs string string
  | NoLiveInstances
  | NoPCFAPIConfiguration
  | UnableToRetrieve string
  | UnableToRetrieveNotAString string
  | UnrecognizedType string

subsection \<open>Structures\<close>

record Configuration =
  IdentityCACertificates :: "string list"
  LoginMaxSecOld :: Duration
  LoginMaxSecAhead :: Duration

record RoleEntry =
  BoundAppIDs :: "string list"
  BoundOrgIDs :: "string list"
  BoundSpaceIDs :: "string list"
  BoundInstanceIDs :: "string list"
  DisableIPMatching :: bool
  TokenBoundCIDRs :: "string list"
  TokenTTL :: Duration
  TokenMaxTTL :: Duration
  TokenPeriod :: Duration

record PCFCertificate =
  InstanceID :: string
  OrgID :: string
  SpaceID :: string
  AppID :: string
  IPAddress :: IP

text \<open>An \<open>*x509.Certificate\<close> is only handed from one collaborator to the next.\<close>

datatype x509 = Certificate string

record SignatureData =
  SigningTime :: Time
  Role :: string
  CFInstanceCertContents :: string

text \<open>The records of the PCF API that \<open>validate\<close> reads.\<close>

record App =
  AppGuid :: string
  AppSpaceGuid :: string
  Instances :: int

record Org =
  OrgGuid :: string

record Space =
  SpaceGuid :: string
  OrganizationGuid :: string

record PCFClient =
  AppByGuid :: "string \<Rightarrow> error + App"
  GetOrgByGuid :: "string \<Rightarrow> error + Org"
  GetSpaceByGuid :: "string \<Rightarrow> error + Space"

text \<open>
  A value of type \<open>interface{}\<close> in \<open>Auth.InternalData\<close>: a string, or anything else.
\<close>

datatype ifc = IStr string | INotString

record Alias =
  Name :: string
  Metadata :: "string \<rightharpoonup> string"

record Auth =
  InternalData :: "string \<rightharpoonup> ifc"
  DisplayName :: string
  AuthAlias :: "Alias option"
  TTL :: Duration
  MaxTTL :: Duration
  Period :: Duration

record Connection =
  RemoteAddr :: string

text \<open>
  The request: \<open>req.Connection\<close> and \<open>req.Auth\<close> are pointers (\<open>None\<close> is \<open>nil\<close>);
  the four fields of the login path are strings, \<open>''''\<close> when the caller left one out.
\<close>

record Request =
  ReqConnection :: "Connection option"
  ReqAuth :: "Auth option"
  data_role :: string
  data_cf_instance_cert :: string
  data_signing_time :: string
  data_signature :: string

text \<open>
  What a handler returns: \<open>logical.ErrorResponse(msg), nil\<close>; \<open>nil, err\<close>; a response
  carrying an \<open>Auth\<close>; or a run-time panic (a nil pointer dereference).
\<close>

datatype response =
    ErrorResponse error
  | Failure error
  | AuthResponse Auth
  | Panic

datatype layout = TimeFormat | BashTimeFormat

text \<open>
  The collaborators. \<open>NewPCFCertificate\<close> returns the Go pair \<open>(pointer, error)\<close> as it
  is, because \<open>pathLoginRenew\<close> uses the pointer without looking at the error.
\<close>

record env =
  Now :: Time
  getRole :: "string \<Rightarrow> error + RoleEntry option"
  config :: "error + Configuration option"
  RemoteAddrIsOk :: "string \<Rightarrow> string list \<Rightarrow> bool"
  time_Parse :: "layout \<Rightarrow> string \<Rightarrow> error + Time"
  ExtractCertificates :: "string \<Rightarrow> error + (x509 \<times> x509)"
  Verify :: "string \<Rightarrow> SignatureData \<Rightarrow> error + x509"
  Validate :: "string list \<Rightarrow> x509 \<Rightarrow> x509 \<Rightarrow> x509 \<Rightarrow> error option"
  NewPCFCertificateFromx509 :: "x509 \<Rightarrow> error + PCFCertificate"
  NewPCFCertificate ::
    "string \<Rightarrow> string \<Rightarrow> string \<Rightarrow> string \<Rightarrow> string \<Rightarrow> PCFCertificate option \<times> error option"
  NewPCFClient :: "Configuration \<Rightarrow> error + PCFClient"
  ParseIP :: "string \<Rightarrow> IP"
  IP_String :: "IP \<Rightarrow> string"


subsection \<open>Helpers of the handlers\<close>

text \<open>\<open>strutil.StrListContains\<close>: a loop over the list comparing with \<open>==\<close>.\<close>

fun StrListContains :: "string list \<Rightarrow> string \<Rightarrow> bool" where
  "StrListContains [] needle = False"
| "StrListContains (item # haystack) needle =
     (if item = needle then True else StrListContains haystack needle)"

definition meetsBoundConstraints :: "string \<Rightarrow> string list \<Rightarrow> bool" where
  "meetsBoundConstraints certValue constraints =
     (if length constraints = 0 then True
      else StrListContains constraints certValue)"

definition matchesIPAddress :: "env \<Rightarrow> string \<Rightarrow> IP \<Rightarrow> bool" where
  "matchesIPAddress e remoteAddr certIP =
     (let parts = Split remoteAddr (CHR ''/'');
          reqIPAddr = ParseIP e (hd parts)
      in if IP_Equal certIP reqIPAddr then True else False)"

definition parseTime :: "env \<Rightarrow> string \<Rightarrow> error + Time" where
  "parseTime e signingTime =
     (case time_Parse e TimeFormat signingTime of
        Inr t \<Rightarrow> Inr t
      | Inl _ \<Rightarrow>
          (case time_Parse e BashTimeFormat signingTime of
             Inr t \<Rightarrow> Inr t
           | Inl _ \<Rightarrow> Inl (CouldntParse signingTime)))"

text \<open>The argument \<open>from interface{}\<close> of \<open>getOrErr\<close> and the cases of its type switch.\<close>

datatype container = MapIfc "string \<rightharpoonup> ifc" | MapStr "string \<rightharpoonup> string" | OtherType

definition getOrErr :: "string \<Rightarrow> container \<Rightarrow> error + string" where
  "getOrErr fieldName frm =
     (case frm of
        MapIfc givenMap \<Rightarrow>
          (case givenMap fieldName of
             None \<Rightarrow> Inl (UnableToRetrieve fieldName)
           | Some vIfc \<Rightarrow>
               (let v = (case vIfc of IStr s \<Rightarrow> s | INotString \<Rightarrow> [])
                in if v = [] then Inl (UnableToRetrieveNotAString fieldName) else Inr v))
      | MapStr givenMap \<Rightarrow>
          (case givenMap fieldName of
             None \<Rightarrow> Inl (UnableToRetrieve fieldName)
           | Some v \<Rightarrow> Inr v)
      | OtherType \<Rightarrow> Inl (UnrecognizedType fieldName))"

text \<open>
  Modelled from the spec: \<open>role.PopulateTokenAuth\<close> belongs to the token utilities of the
  SDK, which are not among the sources. Section 4.7 of the specification: the decision
  carries the TTL and period populated from the role.
\<close>

definition PopulateTokenAuth :: "RoleEntry \<Rightarrow> Auth \<Rightarrow> Auth" where
  "PopulateTokenAuth role auth =
     auth\<lparr>TTL := TokenTTL role, MaxTTL := TokenMaxTTL role, Period := TokenPeriod role\<rparr>"

subsection \<open>validate\<close>

text \<open>
  \<open>validate\<close> returns \<open>None\<close> for \<open>nil\<close>. Its certificate argument is the structure the
  pointer \<open>pcfCert\<close> refers to; the nil pointer is handled where \<open>validate\<close> is called.
\<close>

definition validate ::
  "env \<Rightarrow> Configuration \<Rightarrow> RoleEntry \<Rightarrow> PCFCertificate \<Rightarrow> string \<Rightarrow> error option" where
  "validate e cfg role pcfCert reqConnRemoteAddr =
     (if \<not> DisableIPMatching role \<and> \<not> matchesIPAddress e reqConnRemoteAddr (IPAddress pcfCert)
      then Some NoMatchingIPAddress
      else if \<not> meetsBoundConstraints (InstanceID pcfCert) (BoundInstanceIDs role)
      then Some (InstanceIDMismatch (InstanceID pcfCert) (BoundInstanceIDs role))
      else if \<not> meetsBoundConstraints (AppID pcfCert) (BoundAppIDs role)
      then Some (AppIDMismatch (AppID pcfCert) (BoundAppIDs role))
      else if \<not> meetsBoundConstraints (OrgID pcfCert) (BoundOrgIDs role)
      then Some (OrgIDMismatch (OrgID pcfCert) (BoundOrgIDs role))
      else if \<not> meetsBoundConstraints (SpaceID pcfCert) (BoundSpaceIDs role)
      then Some (SpaceIDMismatch (SpaceID pcfCert) (BoundSpaceIDs role))
      else
        (case NewPCFClient e cfg of
           Inl err \<Rightarrow> Some err
         | Inr client \<Rightarrow>
        (case AppByGuid client (AppID pcfCert) of
           Inl err \<Rightarrow> Some err
         | Inr app \<Rightarrow>
        if AppGuid app \<noteq> AppID pcfCert
        then Some (CertAppIDNotAPIs (AppID pcfCert) (AppGuid app))
        else if AppSpaceGuid app \<noteq> SpaceID pcfCert
        then Some (CertSpaceIDNotAPIs (SpaceID pcfCert) (AppSpaceGuid app))
        else if Instances app \<le> 0
        then Some NoLiveInstances
        else
        (case GetOrgByGuid client (OrgID pcfCert) of
           Inl err \<Rightarrow> Some err
         | Inr org \<Rightarrow>
        if OrgGuid org \<noteq> OrgID pcfCert
        then Some (CertOrgIDNotAPIs (OrgID pcfCert) (OrgGuid org))
        else
        (case GetSpaceByGuid client (SpaceID pcfCert) of
           Inl err \<Rightarrow> Some err
         | Inr space \<Rightarrow>
        if SpaceGuid space \<noteq> SpaceID pcfCert
        then Some (CertSpaceIDNotAPIs (SpaceID pcfCert) (SpaceGuid space))
        else if OrganizationGuid space \<noteq> OrgID pcfCert
        then Some (CertOrgIDNotAPIs (OrgID pcfCert) (OrganizationGuid space))
        else None)))))"

subsection \<open>operationLoginUpdate\<close>

definition operationLoginUpdate :: "env \<Rightarrow> Request \<Rightarrow> response" where
  "operationLoginUpdate e req =
     (let timeReceived = Now e; roleName = data_role req in
      if roleName = [] then ErrorResponse RoleNameRequired
      else
      (case getRole e roleName of
         Inl err \<Rightarrow> Failure err
       | Inr None \<Rightarrow> Failure NoMatchingRole
       | Inr (Some role) \<Rightarrow>
      if length (TokenBoundCIDRs role) > 0 \<and> ReqConnection req = None
      then Failure ErrPermissionDenied
      else if length (TokenBoundCIDRs role) > 0 \<and>
              \<not> RemoteAddrIsOk e (RemoteAddr (the (ReqConnection req))) (TokenBoundCIDRs role)
      then Failure ErrPermissionDenied
      else
      (let signature = data_signature req in
      if signature = [] then ErrorResponse SignatureRequired
      else
      (let cfInstanceCertContents = data_cf_instance_cert req in
      if cfInstanceCertContents = [] then ErrorResponse CFInstanceCertRequired
      else
      (let signingTimeRaw = data_signing_time req in
      if signingTimeRaw = [] then ErrorResponse SigningTimeRequired
      else
      (case parseTime e signingTimeRaw of
         Inl err \<Rightarrow> ErrorResponse err
       | Inr signingTime \<Rightarrow>
      (case config e of
         Inl err \<Rightarrow> Failure err
       | Inr None \<Rightarrow> Failure NoCAConfigured
       | Inr (Some cfg) \<Rightarrow>
      (let oldestAllowableSigningTime = Add timeReceived (- 1 * LoginMaxSecOld cfg);
           furthestFutureAllowableSigningTime = Add timeReceived (LoginMaxSecAhead cfg) in
      if Before signingTime oldestAllowableSigningTime
      then ErrorResponse
             (RequestTooOld signingTime timeReceived (go_div (LoginMaxSecOld cfg) Second))
      else if After signingTime furthestFutureAllowableSigningTime
      then ErrorResponse
             (RequestTooFarInFuture signingTime timeReceived
                (go_div (LoginMaxSecAhead cfg) Second))
      else
      (case ExtractCertificates e cfInstanceCertContents of
         Inl err \<Rightarrow> ErrorResponse err
       | Inr (intermediateCert, identityCert) \<Rightarrow>
      (case Verify e signature
              \<lparr>SigningTime = signingTime, Role = roleName,
               CFInstanceCertContents = cfInstanceCertContents\<rparr> of
         Inl err \<Rightarrow> ErrorResponse err
       | Inr signingCert \<Rightarrow>
      (case Validate e (IdentityCACertificates cfg) intermediateCert identityCert signingCert of
         Some err \<Rightarrow> ErrorResponse err
       | None \<Rightarrow>
      (case NewPCFCertificateFromx509 e signingCert of
         Inl err \<Rightarrow> Failure err
       | Inr pcfCert \<Rightarrow>
      (case ReqConnection req of
         None \<Rightarrow> Panic
       | Some conn \<Rightarrow>
      (case validate e cfg role pcfCert (RemoteAddr conn) of
         Some err \<Rightarrow> ErrorResponse err
       | None \<Rightarrow>
      AuthResponse
        (PopulateTokenAuth role
           \<lparr>InternalData =
              [''role'' \<mapsto> IStr roleName,
               ''instance_id'' \<mapsto> IStr (InstanceID pcfCert),
               ''ip_address'' \<mapsto> IStr (IP_String e (IPAddress pcfCert))],
            DisplayName = InstanceID pcfCert,
            AuthAlias = Some
              \<lparr>Name = AppID pcfCert,
               Metadata =
                 [''org_id'' \<mapsto> OrgID pcfCert,
                  ''app_id'' \<mapsto> AppID pcfCert,
                  ''space_id'' \<mapsto> SpaceID pcfCert]\<rparr>,
            TTL = 0, MaxTTL = 0, Period = 0\<rparr>)))))))))))))))"


subsection \<open>pathLoginRenew\<close>

text \<open>
  The error returned by \<open>NewPCFCertificate\<close> is assigned to \<open>err\<close> and shadowed by the
  \<open>err\<close> of the next statement: only the pointer is used. The call of \<open>validate\<close>
  evaluates \<open>req.Connection.RemoteAddr\<close> first, and \<open>validate\<close> reads a field of
  \<open>pcfCert\<close> before it can return, so a nil connection or a nil certificate is a panic.
\<close>

definition pathLoginRenew :: "env \<Rightarrow> Request \<Rightarrow> response" where
  "pathLoginRenew e req =
     (case config e of
        Inl err \<Rightarrow> Failure err
      | Inr None \<Rightarrow> Failure NoPCFAPIConfiguration
      | Inr (Some cfg) \<Rightarrow>
     (case ReqAuth req of
        None \<Rightarrow> Panic
      | Some auth \<Rightarrow>
     (case getOrErr ''role'' (MapIfc (InternalData auth)) of
        Inl err \<Rightarrow> Failure err
      | Inr roleName \<Rightarrow>
     (case getRole e roleName of
        Inl err \<Rightarrow> Failure err
      | Inr None \<Rightarrow> Failure NoMatchingRole
      | Inr (Some role) \<Rightarrow>
     (case getOrErr ''instance_id'' (MapIfc (InternalData auth)) of
        Inl err \<Rightarrow> Failure err
      | Inr instanceID \<Rightarrow>
     (case getOrErr ''ip_address'' (MapIfc (InternalData auth)) of
        Inl err \<Rightarrow> Failure err
      | Inr ipAddr \<Rightarrow>
     (case AuthAlias auth of
        None \<Rightarrow> Panic
      | Some alias \<Rightarrow>
     (case getOrErr ''org_id'' (MapStr (Metadata alias)) of
        Inl err \<Rightarrow> Failure err
      | Inr orgID \<Rightarrow>
     (case getOrErr ''space_id'' (MapStr (Metadata alias)) of
        Inl err \<Rightarrow> Failure err
      | Inr spaceID \<Rightarrow>
     (case getOrErr ''app_id'' (MapStr (Metadata alias)) of
        Inl err \<Rightarrow> Failure err
      | Inr appID \<Rightarrow>
     (case NewPCFCertificate e instanceID orgID spaceID appID ipAddr of
        (pcfCert, err) \<Rightarrow>
     (case ReqConnection req of
        None \<Rightarrow> Panic
      | Some conn \<Rightarrow>
     (case pcfCert of
        None \<Rightarrow> Panic
      | Some cert \<Rightarrow>
     (case validate e cfg role cert (RemoteAddr conn) of
        Some err \<Rightarrow> ErrorResponse err
      | None \<Rightarrow>
     AuthResponse
       (auth\<lparr>TTL := TokenTTL role, MaxTTL := TokenMaxTTL role,
             Period := TokenPeriod role\<rparr>)))))))))))))))"

subsection \<open>How far a login or a renewal has come\<close>



definition login_reaches_window ::
  "env \<Rightarrow> Request \<Rightarrow> RoleEntry \<Rightarrow> Time \<Rightarrow> Configuration \<Rightarrow> bool" where
  "login_reaches_window e req role signingTime cfg =
     (data_role req \<noteq> [] \<and>
      getRole e (data_role req) = Inr (Some role) \<and>
      (length (TokenBoundCIDRs role) > 0 \<longrightarrow>
         (case ReqConnection req of
            None \<Rightarrow> False
          | Some conn \<Rightarrow> RemoteAddrIsOk e (RemoteAddr conn) (TokenBoundCIDRs role))) \<and>
      data_signature req \<noteq> [] \<and>
      data_cf_instance_cert req \<noteq> [] \<and>
      data_signing_time req \<noteq> [] \<and>
      parseTime e (data_signing_time req) = Inr signingTime \<and>
      config e = Inr (Some cfg))"

definition login_reaches_verify ::
  "env \<Rightarrow> Request \<Rightarrow> RoleEntry \<Rightarrow> Time \<Rightarrow> Configuration \<Rightarrow> x509 \<Rightarrow> x509 \<Rightarrow> bool" where
  "login_reaches_verify e req role signingTime cfg intermediateCert identityCert =
     (login_reaches_window e req role signingTime cfg \<and>
      \<not> Before signingTime (Add (Now e) (- 1 * LoginMaxSecOld cfg)) \<and>
      \<not> After signingTime (Add (Now e) (LoginMaxSecAhead cfg)) \<and>
      ExtractCertificates e (data_cf_instance_cert req) = Inr (intermediateCert, identityCert))"

definition login_reaches_validate ::
  "env \<Rightarrow> Request \<Rightarrow> RoleEntry \<Rightarrow> Configuration \<Rightarrow> PCFCertificate \<Rightarrow> Connection \<Rightarrow> bool" where
  "login_reaches_validate e req role cfg pcfCert conn =
     (\<exists>signingTime intermediateCert identityCert signingCert.
        login_reaches_verify e req role signingTime cfg intermediateCert identityCert \<and>
        Verify e (data_signature req)
          \<lparr>SigningTime = signingTime, Role = data_role req,
           CFInstanceCertContents = data_cf_instance_cert req\<rparr> = Inr signingCert \<and>
        Validate e (IdentityCACertificates cfg) intermediateCert identityCert signingCert = None \<and>
        NewPCFCertificateFromx509 e signingCert = Inr pcfCert \<and>
        ReqConnection req = Some conn)"

text \<open>
  The conditions under which \<open>pathLoginRenew\<close> has read the six stored fields (lines 203
  to 247 have not returned).
\<close>

definition renew_reads ::
  "env \<Rightarrow> Request \<Rightarrow> Auth \<Rightarrow> Configuration \<Rightarrow> RoleEntry
     \<Rightarrow> string \<Rightarrow> string \<Rightarrow> string \<Rightarrow> string \<Rightarrow> string \<Rightarrow> bool" where
  "renew_reads e req auth cfg role instanceID orgID spaceID appID ipAddr =
     (config e = Inr (Some cfg) \<and>
      ReqAuth req = Some auth \<and>
      (\<exists>roleName alias.
         getOrErr ''role'' (MapIfc (InternalData auth)) = Inr roleName \<and>
         getRole e roleName = Inr (Some role) \<and>
         getOrErr ''instance_id'' (MapIfc (InternalData auth)) = Inr instanceID \<and>
         getOrErr ''ip_address'' (MapIfc (InternalData auth)) = Inr ipAddr \<and>
         AuthAlias auth = Some alias \<and>
         getOrErr ''org_id'' (MapStr (Metadata alias)) = Inr orgID \<and>
         getOrErr ''space_id'' (MapStr (Metadata alias)) = Inr spaceID \<and>
         getOrErr ''app_id'' (MapStr (Metadata alias)) = Inr appID))"

subsection \<open>The certificate constructor of the models package\<close>

text \<open>
  \<open>net.IP.IsUnspecified\<close>: the address is \<open>0.0.0.0\<close> or \<open>::\<close>.
\<close>

definition IPv4zero :: IP where
  "IPv4zero = [0, 0, 0, 0, 0, 0, 0, 0, 0, 0, 0xff, 0xff, 0, 0, 0, 0]"

definition IPv6unspecified :: IP where
  "IPv6unspecified = [0, 0, 0, 0, 0, 0, 0, 0, 0, 0, 0, 0, 0, 0, 0, 0]"

definition IsUnspecified :: "IP \<Rightarrow> bool" where
  "IsUnspecified ip = (IP_Equal ip IPv4zero \<or> IP_Equal ip IPv6unspecified)"

text \<open>
  Modelled from the spec: \<open>models.NewPCFCertificate\<close> is not among the sources. Section
  4.4 of the specification: the identity is read from the stored strings, and reading
  fails if a required field is absent. The constructor fills the structure, the address
  being what \<open>net.ParseIP\<close> returns for the stored text (nil when the text does not
  parse), and returns no certificate and an error when one of the four IDs is empty or
  the address is unspecified. Its first argument is \<open>net.ParseIP\<close>.
\<close>

definition models_NewPCFCertificate ::
  "(string \<Rightarrow> IP) \<Rightarrow> string \<Rightarrow> string \<Rightarrow> string \<Rightarrow> string \<Rightarrow> string
     \<Rightarrow> PCFCertificate option \<times> error option" where
  "models_NewPCFCertificate parse instanceID orgID spaceID appID ipAddress =
     (let pcfCert = \<lparr>InstanceID = instanceID, OrgID = orgID, SpaceID = spaceID,
                     AppID = appID, IPAddress = parse ipAddress\<rparr> in
      if InstanceID pcfCert = [] then (None, Some (Text ''no instance ID on given certificate''))
      else if AppID pcfCert = [] then (None, Some (Text ''no app ID on given certificate''))
      else if OrgID pcfCert = [] then (None, Some (Text ''no org ID on given certificate''))
      else if SpaceID pcfCert = [] then (None, Some (Text ''no space ID on given certificate''))
      else if IsUnspecified (IPAddress pcfCert)
      then (None, Some (Text ''ip address is unspecified''))
      else (Some pcfCert, None))"

subsection \<open>A concrete deployment\<close>

text \<open>
  One role without restrictions, a configuration that accepts signatures up to 300
  seconds old and 60 seconds ahead, an instance certificate for \<open>10.0.0.1\<close>, and a PCF
  API that knows the application, its organisation and its space.
\<close>

definition role0 :: RoleEntry where
  "role0 = \<lparr>BoundAppIDs = [], BoundOrgIDs = [], BoundSpaceIDs = [], BoundInstanceIDs = [],
            DisableIPMatching = False, TokenBoundCIDRs = [],
            TokenTTL = 3600000000000, TokenMaxTTL = 7200000000000, TokenPeriod = 0\<rparr>"

definition cfg0 :: Configuration where
  "cfg0 = \<lparr>IdentityCACertificates = [''ca''],
           LoginMaxSecOld = 300000000000, LoginMaxSecAhead = 60000000000\<rparr>"

definition cert0 :: PCFCertificate where
  "cert0 = \<lparr>InstanceID = ''instance-1'', OrgID = ''org-1'', SpaceID = ''space-1'',
            AppID = ''app-1'',
            IPAddress = [0, 0, 0, 0, 0, 0, 0, 0, 0, 0, 0xff, 0xff, 10, 0, 0, 1]\<rparr>"

definition client0 :: PCFClient where
  "client0 =
     \<lparr>AppByGuid = (\<lambda>guid. Inr \<lparr>AppGuid = guid, AppSpaceGuid = ''space-1'', Instances = 1\<rparr>),
      GetOrgByGuid = (\<lambda>guid. Inr \<lparr>OrgGuid = guid\<rparr>),
      GetSpaceByGuid = (\<lambda>guid. Inr \<lparr>SpaceGuid = guid, OrganizationGuid = ''org-1''\<rparr>)\<rparr>"

text \<open>The addresses that \<open>net.ParseIP\<close> is asked for; any other text does not parse.\<close>

definition ParseIP0 :: "string \<Rightarrow> IP" where
  "ParseIP0 s =
     (if s = ''10.0.0.1'' then [0, 0, 0, 0, 0, 0, 0, 0, 0, 0, 0xff, 0xff, 10, 0, 0, 1]
      else if s = ''10.0.0.2'' then [0, 0, 0, 0, 0, 0, 0, 0, 0, 0, 0xff, 0xff, 10, 0, 0, 2]
      else if s = ''0.0.0.0'' then [0, 0, 0, 0, 0, 0, 0, 0, 0, 0, 0xff, 0xff, 0, 0, 0, 0]
      else [])"

definition env0 :: env where
  "env0 =
     \<lparr>Now = 1000000000000,
      getRole = (\<lambda>name. if name = ''my-role'' then Inr (Some role0) else Inr None),
      config = Inr (Some cfg0),
      RemoteAddrIsOk = (\<lambda>addr cidrs. ''10.0.0.0/8'' \<in> set cidrs),
      time_Parse =
        (\<lambda>l s. if l = TimeFormat \<and> s = ''1970-01-01T00:16:40Z'' then Inr 1000000000000
               else if l = TimeFormat \<and> s = ''1970-01-01T00:11:40Z'' then Inr 700000000000
               else if l = TimeFormat \<and> s = ''1970-01-01T00:11:39Z'' then Inr 699000000000
               else if l = TimeFormat \<and> s = ''1970-01-01T00:17:40Z'' then Inr 1060000000000
               else if l = TimeFormat \<and> s = ''1970-01-01T00:17:41Z'' then Inr 1061000000000
               else if l = TimeFormat \<and> s = ''1970-01-01T00:16:33Z'' then Inr 993000000000
               else Inl (Text ''cannot parse'')),
      ExtractCertificates =
        (\<lambda>pem. if pem = ''PEM'' then Inr (Certificate ''intermediate'', Certificate ''identity'')
               else Inl (Text ''no certificate found'')),
      Verify =
        (\<lambda>sig d.
           if sig = ''v1:%%%'' then Inl (Text ''illegal base64 data at input byte 0'')
           else if Role d = ''my-role'' \<and> CFInstanceCertContents d = ''PEM'' \<and>
                   (sig = ''v1:good'' \<and> SigningTime d = 1000000000000 \<or>
                    sig = ''v1:good-at-700'' \<and> SigningTime d = 700000000000 \<or>
                    sig = ''v1:good-at-1060'' \<and> SigningTime d = 1060000000000)
           then Inr (Certificate ''identity'')
           else Inl (Text ''crypto/rsa: verification error'')),
      Validate = (\<lambda>cas intermediate identity signing. None),
      NewPCFCertificateFromx509 = (\<lambda>c. Inr cert0),
      NewPCFCertificate = models_NewPCFCertificate ParseIP0,
      NewPCFClient = (\<lambda>cfg. Inr client0),
      ParseIP = ParseIP0,
      IP_String = (\<lambda>ip. if IP_Equal ip [10, 0, 0, 1] then ''10.0.0.1'' else ''?'')\<rparr>"

definition conn0 :: Connection where
  "conn0 = \<lparr>RemoteAddr = ''10.0.0.1/32''\<rparr>"

definition req0 :: Request where
  "req0 = \<lparr>ReqConnection = Some conn0, ReqAuth = None, data_role = ''my-role'',
           data_cf_instance_cert = ''PEM'', data_signing_time = ''1970-01-01T00:16:40Z'',
           data_signature = ''v1:good''\<rparr>"

text \<open>The \<open>Auth\<close> that the login of \<open>req0\<close> issues.\<close>

definition auth0 :: Auth where
  "auth0 =
     \<lparr>InternalData =
        [''role'' \<mapsto> IStr ''my-role'',
         ''instance_id'' \<mapsto> IStr ''instance-1'',
         ''ip_address'' \<mapsto> IStr ''10.0.0.1''],
      DisplayName = ''instance-1'',
      AuthAlias = Some
        \<lparr>Name = ''app-1'',
         Metadata = [''org_id'' \<mapsto> ''org-1'', ''app_id'' \<mapsto> ''app-1'',
                     ''space_id'' \<mapsto> ''space-1'']\<rparr>,
      TTL = 3600000000000, MaxTTL = 7200000000000, Period = 0\<rparr>"

text \<open>
  The same deployment with a role bound to a network range, and the request \<open>req0\<close>
  arriving without connection information.
\<close>

definition role_cidr :: RoleEntry where
  "role_cidr = role0\<lparr>TokenBoundCIDRs := [''10.0.0.0/8'']\<rparr>"

definition env_cidr :: env where
  "env_cidr =
     env0\<lparr>getRole := (\<lambda>name. if name = ''my-role'' then Inr (Some role_cidr) else Inr None)\<rparr>"

definition req_noconn :: Request where
  "req_noconn = req0\<lparr>ReqConnection := None\<rparr>"

text \<open>
  Variations of the request \<open>req0\<close>: a signature made with another key, a signature
  that is not base64, and signing times just outside and exactly at the two ends of the
  window around the time of receipt (1000 s): 699 s, 700 s, 1060 s and 1061 s, the two
  at the ends signed for their own signing time.
\<close>

definition req_wrong_key :: Request where
  "req_wrong_key = req0\<lparr>data_signature := ''v1:forged''\<rparr>"

definition req_bad_encoding :: Request where
  "req_bad_encoding = req0\<lparr>data_signature := ''v1:%%%''\<rparr>"

definition req_too_old :: Request where
  "req_too_old = req0\<lparr>data_signing_time := ''1970-01-01T00:11:39Z''\<rparr>"

definition req_oldest :: Request where
  "req_oldest = req0\<lparr>data_signing_time := ''1970-01-01T00:11:40Z'',
                     data_signature := ''v1:good-at-700''\<rparr>"

definition req_furthest :: Request where
  "req_furthest = req0\<lparr>data_signing_time := ''1970-01-01T00:17:40Z'',
                       data_signature := ''v1:good-at-1060''\<rparr>"

definition req_too_far :: Request where
  "req_too_far = req0\<lparr>data_signing_time := ''1970-01-01T00:17:41Z''\<rparr>"


text \<open>The checks of lines 263 to 279 of \<open>validate\<close>, before the PCF API is asked.\<close>

definition constraints_met :: "env \<Rightarrow> RoleEntry \<Rightarrow> PCFCertificate \<Rightarrow> string \<Rightarrow> bool" where
  "constraints_met e role pcfCert reqConnRemoteAddr =
     ((DisableIPMatching role \<or> matchesIPAddress e reqConnRemoteAddr (IPAddress pcfCert)) \<and>
      meetsBoundConstraints (InstanceID pcfCert) (BoundInstanceIDs role) \<and>
      meetsBoundConstraints (AppID pcfCert) (BoundAppIDs role) \<and>
      meetsBoundConstraints (OrgID pcfCert) (BoundOrgIDs role) \<and>
      meetsBoundConstraints (SpaceID pcfCert) (BoundSpaceIDs role))"

text \<open>
  Further variations of the deployment: the caller at another address, a role with IP
  matching disabled, the renewal of the session issued for \<open>req0\<close>, a role bound to
  \<open>app-1\<close> with a certificate of \<open>app-2\<close>, an application without live instances, a PCF
  API that cannot be reached.
\<close>

definition conn_other :: Connection where
  "conn_other = \<lparr>RemoteAddr = ''10.0.0.2/32''\<rparr>"

definition req_other_ip :: Request where
  "req_other_ip = req0\<lparr>ReqConnection := Some conn_other\<rparr>"

definition role_noip :: RoleEntry where
  "role_noip = role0\<lparr>DisableIPMatching := True\<rparr>"

definition req_renew :: Request where
  "req_renew = \<lparr>ReqConnection = Some conn0, ReqAuth = Some auth0, data_role = [],
                data_cf_instance_cert = [], data_signing_time = [], data_signature = []\<rparr>"

definition req_renew_other_ip :: Request where
  "req_renew_other_ip = req_renew\<lparr>ReqConnection := Some conn_other\<rparr>"


definition role_app1 :: RoleEntry where
  "role_app1 = role0\<lparr>BoundAppIDs := [''app-1'']\<rparr>"

definition cert_app2 :: PCFCertificate where
  "cert_app2 = cert0\<lparr>AppID := ''app-2''\<rparr>"

definition env_app :: env where
  "env_app =
     env0\<lparr>getRole := (\<lambda>name. if name = ''my-role'' then Inr (Some role_app1) else Inr None),
          NewPCFCertificateFromx509 := (\<lambda>c. Inr cert_app2)\<rparr>"

definition app_no_instances :: App where
  "app_no_instances = \<lparr>AppGuid = ''app-1'', AppSpaceGuid = ''space-1'', Instances = 0\<rparr>"

definition client_no_instances :: PCFClient where
  "client_no_instances = client0\<lparr>AppByGuid := (\<lambda>guid. Inr app_no_instances)\<rparr>"

definition env_no_instances :: env where
  "env_no_instances = env0\<lparr>NewPCFClient := (\<lambda>cfg. Inr client_no_instances)\<rparr>"

definition client_down :: PCFClient where
  "client_down = client0\<lparr>AppByGuid := (\<lambda>guid. Inl (Text ''connection refused''))\<rparr>"

definition env_api_down :: env where
  "env_api_down = env0\<lparr>NewPCFClient := (\<lambda>cfg. Inr client_down)\<rparr>"

text \<open>
  A request without a role name; a configuration whose maximal age is the least
  \<open>int64\<close>; a configuration with a maximal age of 5 s and a skew of -10 s, and a
  request signed at 993 s.
\<close>

definition cfg_minint :: Configuration where
  "cfg_minint = cfg0\<lparr>LoginMaxSecOld := 0x8000000000000000\<rparr>"

definition env_minint :: env where
  "env_minint = env0\<lparr>config := Inr (Some cfg_minint)\<rparr>"

definition cfg_negskew :: Configuration where
  "cfg_negskew = cfg0\<lparr>LoginMaxSecOld := 5000000000, LoginMaxSecAhead := - 10000000000\<rparr>"

definition env_negskew :: env where
  "env_negskew = env0\<lparr>config := Inr (Some cfg_negskew)\<rparr>"

definition req_between :: Request where
  "req_between = req0\<lparr>data_signing_time := ''1970-01-01T00:16:33Z''\<rparr>"


text \<open>
  Stored metadata of a renewal whose organisation ID is empty, whose IP address is
  \<open>0.0.0.0\<close>, and whose IP address does not parse.
\<close>

definition alias_empty_org :: Alias where
  "alias_empty_org =
     \<lparr>Name = ''app-1'',
      Metadata = [''org_id'' \<mapsto> [], ''app_id'' \<mapsto> ''app-1'', ''space_id'' \<mapsto> ''space-1'']\<rparr>"

definition req_renew_empty_org :: Request where
  "req_renew_empty_org = req_renew\<lparr>ReqAuth := Some (auth0\<lparr>AuthAlias := Some alias_empty_org\<rparr>)\<rparr>"

definition req_renew_unspecified_ip :: Request where
  "req_renew_unspecified_ip =
     req_renew\<lparr>ReqAuth :=
       Some (auth0\<lparr>InternalData := (InternalData auth0)(''ip_address'' \<mapsto> IStr ''0.0.0.0'')\<rparr>)\<rparr>"

definition req_renew_bad_ip :: Request where
  "req_renew_bad_ip =
     req_renew\<lparr>ReqAuth :=
       Some (auth0\<lparr>InternalData := (InternalData auth0)(''ip_address'' \<mapsto> IStr ''not-an-ip'')\<rparr>)\<rparr>"

section \<open>Properties\<close>

subsection \<open>Auxiliary facts\<close>

lemmas deployment_defs =
  env0_def role0_def cfg0_def cert0_def client0_def conn0_def req0_def auth0_def ParseIP0_def
  models_NewPCFCertificate_def IsUnspecified_def IPv4zero_def IPv6unspecified_def

lemmas check_defs =
  parseTime_def Add_def Before_def After_def PopulateTokenAuth_def validate_def
  matchesIPAddress_def meetsBoundConstraints_def IP_Equal_def v4InV6Prefix_def Let_def

lemma hd_Split: "hd (Split s sep) = takeWhile (\<lambda>c. c \<noteq> sep) s"
  by (induction s) auto

lemma StrListContains_iff: "StrListContains xs x \<longleftrightarrow> x \<in> set xs"
  by (induction xs) auto

lemma meetsBoundConstraints_iff:
  "meetsBoundConstraints v cs \<longleftrightarrow> cs = [] \<or> v \<in> set cs"
  by (simp add: meetsBoundConstraints_def StrListContains_iff)

lemma validate_None_iff:
  "validate e cfg role c addr = None \<longleftrightarrow>
     (DisableIPMatching role \<or> matchesIPAddress e addr (IPAddress c)) \<and>
     meetsBoundConstraints (InstanceID c) (BoundInstanceIDs role) \<and>
     meetsBoundConstraints (AppID c) (BoundAppIDs role) \<and>
     meetsBoundConstraints (OrgID c) (BoundOrgIDs role) \<and>
     meetsBoundConstraints (SpaceID c) (BoundSpaceIDs role) \<and>
     (\<exists>client app org space.
        NewPCFClient e cfg = Inr client \<and>
        AppByGuid client (AppID c) = Inr app \<and>
        AppGuid app = AppID c \<and> AppSpaceGuid app = SpaceID c \<and> 0 < Instances app \<and>
        GetOrgByGuid client (OrgID c) = Inr org \<and> OrgGuid org = OrgID c \<and>
        GetSpaceByGuid client (SpaceID c) = Inr space \<and>
        SpaceGuid space = SpaceID c \<and> OrganizationGuid space = OrgID c)"
  by (auto simp: validate_def split: sum.splits)

lemma login_AuthD:
  assumes "operationLoginUpdate e req = AuthResponse auth"
  shows "\<exists>role cfg pcfCert conn.
           login_reaches_validate e req role cfg pcfCert conn \<and>
           validate e cfg role pcfCert (RemoteAddr conn) = None"
  using assms
  unfolding operationLoginUpdate_def login_reaches_validate_def login_reaches_verify_def
    login_reaches_window_def Let_def
  by (auto split: if_splits sum.splits option.splits prod.splits)

lemma login_validate:
  assumes "login_reaches_validate e req role cfg pcfCert conn"
  shows "operationLoginUpdate e req =
           (case validate e cfg role pcfCert (RemoteAddr conn) of
              Some err \<Rightarrow> ErrorResponse err
            | None \<Rightarrow>
                AuthResponse
                  (PopulateTokenAuth role
                     \<lparr>InternalData =
                        [''role'' \<mapsto> IStr (data_role req),
                         ''instance_id'' \<mapsto> IStr (InstanceID pcfCert),
                         ''ip_address'' \<mapsto> IStr (IP_String e (IPAddress pcfCert))],
                      DisplayName = InstanceID pcfCert,
                      AuthAlias = Some
                        \<lparr>Name = AppID pcfCert,
                         Metadata =
                           [''org_id'' \<mapsto> OrgID pcfCert,
                            ''app_id'' \<mapsto> AppID pcfCert,
                            ''space_id'' \<mapsto> SpaceID pcfCert]\<rparr>,
                      TTL = 0, MaxTTL = 0, Period = 0\<rparr>))"
  using assms
  unfolding operationLoginUpdate_def login_reaches_validate_def login_reaches_verify_def
    login_reaches_window_def Let_def
  by (auto split: option.splits)

lemma login_Auth_bounds:
  assumes "operationLoginUpdate e req = AuthResponse auth"
  shows "\<exists>role' cfg' c' conn'.
           login_reaches_validate e req role' cfg' c' conn' \<and>
           (BoundInstanceIDs role' = [] \<or> InstanceID c' \<in> set (BoundInstanceIDs role')) \<and>
           (BoundAppIDs role' = [] \<or> AppID c' \<in> set (BoundAppIDs role')) \<and>
           (BoundOrgIDs role' = [] \<or> OrgID c' \<in> set (BoundOrgIDs role')) \<and>
           (BoundSpaceIDs role' = [] \<or> SpaceID c' \<in> set (BoundSpaceIDs role'))"
proof -
  from login_AuthD [OF assms] obtain role cfg pcfCert conn where
    "login_reaches_validate e req role cfg pcfCert conn"
    "validate e cfg role pcfCert (RemoteAddr conn) = None"
    by blast
  then show ?thesis
    unfolding validate_None_iff meetsBoundConstraints_iff by blast
qed

lemma reaches_verify_env0:
  "login_reaches_verify env0 req0 role0 1000000000000 cfg0
     (Certificate ''intermediate'') (Certificate ''identity'')"
  by (simp add: login_reaches_verify_def login_reaches_window_def deployment_defs check_defs)

lemma reaches_validate_env0: "login_reaches_validate env0 req0 role0 cfg0 cert0 conn0"
  unfolding login_reaches_validate_def
  apply (rule exI [of _ 1000000000000])
  apply (rule exI [of _ "Certificate ''intermediate''"])
  apply (rule exI [of _ "Certificate ''identity''"])
  apply (rule exI [of _ "Certificate ''identity''"])
  apply (simp add: reaches_verify_env0)
  apply (simp add: deployment_defs)
  done

subsection \<open>Bound CIDRs without connection information\<close>

text \<open>
  Claim C10. A login against a role whose list of bound CIDRs is not empty, on a request
  that carries no connection information, is rejected with permission denied: the check
  is not skipped.
\<close>

theorem bound_cidrs_without_connection_denied:
  assumes "data_role req \<noteq> []"
    and "getRole e (data_role req) = Inr (Some role)"
    and "length (TokenBoundCIDRs role) > 0"
    and "ReqConnection req = None"
  shows "operationLoginUpdate e req = Failure ErrPermissionDenied"
  using assms by (simp add: operationLoginUpdate_def)

theorem bound_cidrs_without_connection_denied_witness:
  "data_role req_noconn \<noteq> [] \<and>
   getRole env_cidr (data_role req_noconn) = Inr (Some role_cidr) \<and>
   length (TokenBoundCIDRs role_cidr) > 0 \<and>
   ReqConnection req_noconn = None \<and>
   operationLoginUpdate env_cidr req_noconn = Failure ErrPermissionDenied"
proof -
  have h1: "data_role req_noconn \<noteq> []"
    by (simp add: req_noconn_def req0_def)
  have h2: "getRole env_cidr (data_role req_noconn) = Inr (Some role_cidr)"
    by (simp add: env_cidr_def req_noconn_def req0_def)
  have h3: "length (TokenBoundCIDRs role_cidr) > 0"
    by (simp add: role_cidr_def)
  have h4: "ReqConnection req_noconn = None"
    by (simp add: req_noconn_def)
  from bound_cidrs_without_connection_denied [OF h1 h2 h3 h4] h1 h2 h3 h4
  show ?thesis by simp
qed

subsection \<open>An Auth is issued only after every check\<close>

text \<open>
  Claim C1. If a login returns a response with an \<open>Auth\<close>, then the signature was
  verified, the signing certificate was validated against the configured CA certificates,
  the signing time was inside the window around the time of receipt, and \<open>validate\<close>
  found the IP address matching (or matching disabled), the four bound lists satisfied and
  the application, organisation and space confirmed by the PCF API. Hence a failure of any
  one of these checks yields a response without an \<open>Auth\<close>.
\<close>

theorem auth_only_if_all_checks_passed:
  assumes "operationLoginUpdate e req = AuthResponse auth"
  shows "\<exists>role cfg signingTime intermediateCert identityCert signingCert pcfCert conn.
           getRole e (data_role req) = Inr (Some role) \<and>
           config e = Inr (Some cfg) \<and>
           parseTime e (data_signing_time req) = Inr signingTime \<and>
           ExtractCertificates e (data_cf_instance_cert req) =
             Inr (intermediateCert, identityCert) \<and>
           Verify e (data_signature req)
             \<lparr>SigningTime = signingTime, Role = data_role req,
              CFInstanceCertContents = data_cf_instance_cert req\<rparr> = Inr signingCert \<and>
           Validate e (IdentityCACertificates cfg) intermediateCert identityCert signingCert
             = None \<and>
           \<not> Before signingTime (Add (Now e) (- 1 * LoginMaxSecOld cfg)) \<and>
           \<not> After signingTime (Add (Now e) (LoginMaxSecAhead cfg)) \<and>
           NewPCFCertificateFromx509 e signingCert = Inr pcfCert \<and>
           ReqConnection req = Some conn \<and>
           (DisableIPMatching role \<or>
              matchesIPAddress e (RemoteAddr conn) (IPAddress pcfCert)) \<and>
           meetsBoundConstraints (InstanceID pcfCert) (BoundInstanceIDs role) \<and>
           meetsBoundConstraints (AppID pcfCert) (BoundAppIDs role) \<and>
           meetsBoundConstraints (OrgID pcfCert) (BoundOrgIDs role) \<and>
           meetsBoundConstraints (SpaceID pcfCert) (BoundSpaceIDs role) \<and>
           (\<exists>client app org space.
              NewPCFClient e cfg = Inr client \<and>
              AppByGuid client (AppID pcfCert) = Inr app \<and>
              AppGuid app = AppID pcfCert \<and> AppSpaceGuid app = SpaceID pcfCert \<and>
              0 < Instances app \<and>
              GetOrgByGuid client (OrgID pcfCert) = Inr org \<and> OrgGuid org = OrgID pcfCert \<and>
              GetSpaceByGuid client (SpaceID pcfCert) = Inr space \<and>
              SpaceGuid space = SpaceID pcfCert \<and> OrganizationGuid space = OrgID pcfCert)"
proof -
  from login_AuthD [OF assms] obtain role cfg pcfCert conn where
    r: "login_reaches_validate e req role cfg pcfCert conn" and
    v: "validate e cfg role pcfCert (RemoteAddr conn) = None"
    by blast
  from r obtain signingTime intermediateCert identityCert signingCert where
    s: "login_reaches_verify e req role signingTime cfg intermediateCert identityCert"
       "Verify e (data_signature req)
          \<lparr>SigningTime = signingTime, Role = data_role req,
           CFInstanceCertContents = data_cf_instance_cert req\<rparr> = Inr signingCert"
       "Validate e (IdentityCACertificates cfg) intermediateCert identityCert signingCert = None"
       "NewPCFCertificateFromx509 e signingCert = Inr pcfCert"
       "ReqConnection req = Some conn"
    unfolding login_reaches_validate_def by blast
  from s(1) have w:
    "getRole e (data_role req) = Inr (Some role)" "config e = Inr (Some cfg)"
    "parseTime e (data_signing_time req) = Inr signingTime"
    "ExtractCertificates e (data_cf_instance_cert req) = Inr (intermediateCert, identityCert)"
    "\<not> Before signingTime (Add (Now e) (- 1 * LoginMaxSecOld cfg))"
    "\<not> After signingTime (Add (Now e) (LoginMaxSecAhead cfg))"
    by (simp_all add: login_reaches_verify_def login_reaches_window_def)
  from v [unfolded validate_None_iff] s(2-5) w show ?thesis
    by blast
qed

theorem auth_only_if_all_checks_passed_witness:
  "operationLoginUpdate env0 req0 = AuthResponse auth0 \<and>
   (\<exists>role cfg signingTime intermediateCert identityCert signingCert pcfCert conn.
      getRole env0 (data_role req0) = Inr (Some role) \<and>
      config env0 = Inr (Some cfg) \<and>
      parseTime env0 (data_signing_time req0) = Inr signingTime \<and>
      ExtractCertificates env0 (data_cf_instance_cert req0) =
        Inr (intermediateCert, identityCert) \<and>
      Verify env0 (data_signature req0)
        \<lparr>SigningTime = signingTime, Role = data_role req0,
         CFInstanceCertContents = data_cf_instance_cert req0\<rparr> = Inr signingCert \<and>
      Validate env0 (IdentityCACertificates cfg) intermediateCert identityCert signingCert
        = None \<and>
      \<not> Before signingTime (Add (Now env0) (- 1 * LoginMaxSecOld cfg)) \<and>
      \<not> After signingTime (Add (Now env0) (LoginMaxSecAhead cfg)) \<and>
      NewPCFCertificateFromx509 env0 signingCert = Inr pcfCert \<and>
      ReqConnection req0 = Some conn \<and>
      validate env0 cfg role pcfCert (RemoteAddr conn) = None)"
proof -
  have h: "operationLoginUpdate env0 req0 = AuthResponse auth0"
    by (simp add: operationLoginUpdate_def deployment_defs check_defs)
  from auth_only_if_all_checks_passed [OF h] obtain
    role cfg signingTime intermediateCert identityCert signingCert pcfCert conn where
    c: "getRole env0 (data_role req0) = Inr (Some role)"
       "config env0 = Inr (Some cfg)"
       "parseTime env0 (data_signing_time req0) = Inr signingTime"
       "ExtractCertificates env0 (data_cf_instance_cert req0) =
          Inr (intermediateCert, identityCert)"
       "Verify env0 (data_signature req0)
          \<lparr>SigningTime = signingTime, Role = data_role req0,
           CFInstanceCertContents = data_cf_instance_cert req0\<rparr> = Inr signingCert"
       "Validate env0 (IdentityCACertificates cfg) intermediateCert identityCert signingCert
          = None"
       "\<not> Before signingTime (Add (Now env0) (- 1 * LoginMaxSecOld cfg))"
       "\<not> After signingTime (Add (Now env0) (LoginMaxSecAhead cfg))"
       "NewPCFCertificateFromx509 env0 signingCert = Inr pcfCert"
       "ReqConnection req0 = Some conn" and
    d: "DisableIPMatching role \<or> matchesIPAddress env0 (RemoteAddr conn) (IPAddress pcfCert)"
       "meetsBoundConstraints (InstanceID pcfCert) (BoundInstanceIDs role)"
       "meetsBoundConstraints (AppID pcfCert) (BoundAppIDs role)"
       "meetsBoundConstraints (OrgID pcfCert) (BoundOrgIDs role)"
       "meetsBoundConstraints (SpaceID pcfCert) (BoundSpaceIDs role)"
       "\<exists>client app org space.
          NewPCFClient env0 cfg = Inr client \<and>
          AppByGuid client (AppID pcfCert) = Inr app \<and>
          AppGuid app = AppID pcfCert \<and> AppSpaceGuid app = SpaceID pcfCert \<and>
          0 < Instances app \<and>
          GetOrgByGuid client (OrgID pcfCert) = Inr org \<and> OrgGuid org = OrgID pcfCert \<and>
          GetSpaceByGuid client (SpaceID pcfCert) = Inr space \<and>
          SpaceGuid space = SpaceID pcfCert \<and> OrganizationGuid space = OrgID pcfCert"
    by blast
  from d have "validate env0 cfg role pcfCert (RemoteAddr conn) = None"
    unfolding validate_None_iff by blast
  with h c show ?thesis by blast
qed

subsection \<open>What the caller sees when the signature does not verify\<close>

text \<open>
  Claim C2, as stated: a login whose signature does not verify gets one generic rejection
  that tells nothing about the reason, and never a policy error. It fails: a signature
  made with another key and a signature that is not base64 are answered with two
  different texts, each the verifier's own; and a request whose signing time was changed
  to 699 s is answered by the time-window check, before the signature is looked at.
\<close>

theorem signature_failure_not_generic_counterexample:
  "operationLoginUpdate env0 req_wrong_key
     = ErrorResponse (Text ''crypto/rsa: verification error'') \<and>
   operationLoginUpdate env0 req_bad_encoding
     = ErrorResponse (Text ''illegal base64 data at input byte 0'') \<and>
   operationLoginUpdate env0 req_wrong_key \<noteq> operationLoginUpdate env0 req_bad_encoding \<and>
   Verify env0 (data_signature req_too_old)
     \<lparr>SigningTime = 699000000000, Role = data_role req_too_old,
      CFInstanceCertContents = data_cf_instance_cert req_too_old\<rparr>
     = Inl (Text ''crypto/rsa: verification error'') \<and>
   operationLoginUpdate env0 req_too_old
     = ErrorResponse (RequestTooOld 699000000000 1000000000000 300)"
  by (simp add: operationLoginUpdate_def req_wrong_key_def req_bad_encoding_def
      req_too_old_def deployment_defs check_defs go_div_def Second_def)

text \<open>
  Claim C2, amended. A login that reaches the signature verification (the role is
  resolved, the bound CIDRs admit the caller, the fields are present, the signing time is
  parsed and inside the window, the certificates are extracted) and whose signature does
  not verify returns \<open>logical.ErrorResponse\<close> with exactly the error text of the verifier,
  and no \<open>Auth\<close>.
\<close>

theorem signature_failure_returns_verifier_error:
  assumes "login_reaches_verify e req role signingTime cfg intermediateCert identityCert"
    and "Verify e (data_signature req)
           \<lparr>SigningTime = signingTime, Role = data_role req,
            CFInstanceCertContents = data_cf_instance_cert req\<rparr> = Inl err"
  shows "operationLoginUpdate e req = ErrorResponse err"
  using assms
  unfolding operationLoginUpdate_def login_reaches_verify_def login_reaches_window_def Let_def
  by (auto split: option.splits)

theorem signature_failure_returns_verifier_error_witness:
  "login_reaches_verify env0 req_wrong_key role0 1000000000000 cfg0
     (Certificate ''intermediate'') (Certificate ''identity'') \<and>
   Verify env0 (data_signature req_wrong_key)
     \<lparr>SigningTime = 1000000000000, Role = data_role req_wrong_key,
      CFInstanceCertContents = data_cf_instance_cert req_wrong_key\<rparr>
     = Inl (Text ''crypto/rsa: verification error'') \<and>
   operationLoginUpdate env0 req_wrong_key
     = ErrorResponse (Text ''crypto/rsa: verification error'')"
proof -
  have h1: "login_reaches_verify env0 req_wrong_key role0 1000000000000 cfg0
     (Certificate ''intermediate'') (Certificate ''identity'')"
    by (simp add: login_reaches_verify_def login_reaches_window_def req_wrong_key_def
        deployment_defs check_defs)
  have h2: "Verify env0 (data_signature req_wrong_key)
     \<lparr>SigningTime = 1000000000000, Role = data_role req_wrong_key,
      CFInstanceCertContents = data_cf_instance_cert req_wrong_key\<rparr>
     = Inl (Text ''crypto/rsa: verification error'')"
    by (simp add: req_wrong_key_def deployment_defs)
  from signature_failure_returns_verifier_error [OF h1 h2] h1 h2 show ?thesis
    by simp
qed

subsection \<open>IP matching\<close>

lemma renew_validate:
  assumes "renew_reads e req auth cfg role instanceID orgID spaceID appID ipAddr"
  shows "pathLoginRenew e req =
     (case NewPCFCertificate e instanceID orgID spaceID appID ipAddr of
        (pcfCert, err) \<Rightarrow>
     (case ReqConnection req of
        None \<Rightarrow> Panic
      | Some conn \<Rightarrow>
     (case pcfCert of
        None \<Rightarrow> Panic
      | Some cert \<Rightarrow>
     (case validate e cfg role cert (RemoteAddr conn) of
        Some err \<Rightarrow> ErrorResponse err
      | None \<Rightarrow>
     AuthResponse
       (auth\<lparr>TTL := TokenTTL role, MaxTTL := TokenMaxTTL role,
             Period := TokenPeriod role\<rparr>)))))"
  using assms unfolding pathLoginRenew_def renew_reads_def
  by (auto split: prod.splits)

lemma matchesIPAddress_iff:
  "matchesIPAddress e addr ip \<longleftrightarrow>
     IP_Equal ip (ParseIP e (takeWhile (\<lambda>x. x \<noteq> CHR ''/'') addr))"
  by (simp add: matchesIPAddress_def hd_Split)

text \<open>
  Claim C6. Unless the role disables IP matching, \<open>validate\<close> compares the certificate's
  IP address (with \<open>net.IP.Equal\<close>) with the caller's remote address cut at the first
  \<open>/\<close> and parsed: when they differ it returns the no-matching-IP error, which a login
  and a renewal hand to the caller; when they are equal the check passes. When the role
  disables IP matching the result of \<open>validate\<close> depends neither on the remote address
  nor on the certificate's IP address.
\<close>

theorem ip_matching:
  "(\<not> DisableIPMatching role \<and>
    \<not> IP_Equal (IPAddress c) (ParseIP e (takeWhile (\<lambda>x. x \<noteq> CHR ''/'') addr))
      \<longrightarrow> validate e cfg role c addr = Some NoMatchingIPAddress) \<and>
   (\<not> DisableIPMatching role \<and>
    IP_Equal (IPAddress c) (ParseIP e (takeWhile (\<lambda>x. x \<noteq> CHR ''/'') addr))
      \<longrightarrow> validate e cfg role c addr
            = validate e cfg (role\<lparr>DisableIPMatching := True\<rparr>) c addr) \<and>
   (DisableIPMatching role
      \<longrightarrow> validate e cfg role c addr
            = validate (e\<lparr>ParseIP := p\<rparr>) cfg role (c\<lparr>IPAddress := ip\<rparr>) addr') \<and>
   (login_reaches_validate e req role cfg c conn \<and>
    \<not> DisableIPMatching role \<and>
    \<not> IP_Equal (IPAddress c) (ParseIP e (takeWhile (\<lambda>x. x \<noteq> CHR ''/'') (RemoteAddr conn)))
      \<longrightarrow> operationLoginUpdate e req = ErrorResponse NoMatchingIPAddress) \<and>
   (renew_reads e req' auth cfg' role' iid oid sid aid ipAddr \<and>
    NewPCFCertificate e iid oid sid aid ipAddr = (Some c', err) \<and>
    ReqConnection req' = Some conn' \<and>
    \<not> DisableIPMatching role' \<and>
    \<not> IP_Equal (IPAddress c') (ParseIP e (takeWhile (\<lambda>x. x \<noteq> CHR ''/'') (RemoteAddr conn')))
      \<longrightarrow> pathLoginRenew e req' = ErrorResponse NoMatchingIPAddress)"
proof (intro conjI impI)
  assume "\<not> DisableIPMatching role \<and>
    \<not> IP_Equal (IPAddress c) (ParseIP e (takeWhile (\<lambda>x. x \<noteq> CHR ''/'') addr))"
  then show "validate e cfg role c addr = Some NoMatchingIPAddress"
    by (simp add: validate_def matchesIPAddress_iff)
next
  assume "\<not> DisableIPMatching role \<and>
    IP_Equal (IPAddress c) (ParseIP e (takeWhile (\<lambda>x. x \<noteq> CHR ''/'') addr))"
  then show "validate e cfg role c addr = validate e cfg (role\<lparr>DisableIPMatching := True\<rparr>) c addr"
    by (simp add: validate_def matchesIPAddress_iff)
next
  assume "DisableIPMatching role"
  then show "validate e cfg role c addr
            = validate (e\<lparr>ParseIP := p\<rparr>) cfg role (c\<lparr>IPAddress := ip\<rparr>) addr'"
    by (simp add: validate_def split: sum.splits)
next
  assume a: "login_reaches_validate e req role cfg c conn \<and>
    \<not> DisableIPMatching role \<and>
    \<not> IP_Equal (IPAddress c) (ParseIP e (takeWhile (\<lambda>x. x \<noteq> CHR ''/'') (RemoteAddr conn)))"
  then have "validate e cfg role c (RemoteAddr conn) = Some NoMatchingIPAddress"
    by (simp add: validate_def matchesIPAddress_iff)
  moreover from a have "login_reaches_validate e req role cfg c conn"
    by simp
  ultimately show "operationLoginUpdate e req = ErrorResponse NoMatchingIPAddress"
    by (simp add: login_validate [of e req role cfg c conn])
next
  assume a: "renew_reads e req' auth cfg' role' iid oid sid aid ipAddr \<and>
    NewPCFCertificate e iid oid sid aid ipAddr = (Some c', err) \<and>
    ReqConnection req' = Some conn' \<and>
    \<not> DisableIPMatching role' \<and>
    \<not> IP_Equal (IPAddress c') (ParseIP e (takeWhile (\<lambda>x. x \<noteq> CHR ''/'') (RemoteAddr conn')))"
  then have "validate e cfg' role' c' (RemoteAddr conn') = Some NoMatchingIPAddress"
    by (simp add: validate_def matchesIPAddress_iff)
  moreover from a have "renew_reads e req' auth cfg' role' iid oid sid aid ipAddr"
    by simp
  ultimately show "pathLoginRenew e req' = ErrorResponse NoMatchingIPAddress"
    using a by (simp add: renew_validate [of e req' auth cfg' role' iid oid sid aid ipAddr])
qed

theorem ip_matching_witness:
  "\<not> DisableIPMatching role0 \<and>
   \<not> IP_Equal (IPAddress cert0) (ParseIP env0 (takeWhile (\<lambda>x. x \<noteq> CHR ''/'') ''10.0.0.2/32'')) \<and>
   validate env0 cfg0 role0 cert0 ''10.0.0.2/32'' = Some NoMatchingIPAddress \<and>
   IP_Equal (IPAddress cert0) (ParseIP env0 (takeWhile (\<lambda>x. x \<noteq> CHR ''/'') ''10.0.0.1/32'')) \<and>
   validate env0 cfg0 role0 cert0 ''10.0.0.1/32'' = None \<and>
   DisableIPMatching role_noip \<and>
   validate env0 cfg0 role_noip cert0 ''10.0.0.2/32'' = None \<and>
   login_reaches_validate env0 req_other_ip role0 cfg0 cert0 conn_other \<and>
   operationLoginUpdate env0 req_other_ip = ErrorResponse NoMatchingIPAddress \<and>
   renew_reads env0 req_renew_other_ip auth0 cfg0 role0
     ''instance-1'' ''org-1'' ''space-1'' ''app-1'' ''10.0.0.1'' \<and>
   pathLoginRenew env0 req_renew_other_ip = ErrorResponse NoMatchingIPAddress"
proof -
  have n: "\<not> DisableIPMatching role0" "DisableIPMatching role_noip"
    by (simp_all add: role0_def role_noip_def)
  have d: "\<not> IP_Equal (IPAddress cert0)
               (ParseIP env0 (takeWhile (\<lambda>x. x \<noteq> CHR ''/'') ''10.0.0.2/32''))"
    by (simp add: deployment_defs IP_Equal_def v4InV6Prefix_def)
  have q: "IP_Equal (IPAddress cert0)
             (ParseIP env0 (takeWhile (\<lambda>x. x \<noteq> CHR ''/'') ''10.0.0.1/32''))"
    by (simp add: deployment_defs IP_Equal_def v4InV6Prefix_def)
  have v: "validate env0 cfg0 role_noip cert0 ''10.0.0.1/32'' = None"
    by (simp add: validate_def role_noip_def deployment_defs meetsBoundConstraints_def)
  have r: "login_reaches_validate env0 req_other_ip role0 cfg0 cert0 conn_other"
    unfolding login_reaches_validate_def
    apply (rule exI [of _ 1000000000000])
    apply (rule exI [of _ "Certificate ''intermediate''"])
    apply (rule exI [of _ "Certificate ''identity''"])
    apply (rule exI [of _ "Certificate ''identity''"])
    apply (simp add: login_reaches_verify_def login_reaches_window_def req_other_ip_def
        deployment_defs check_defs)
    done
  have c: "RemoteAddr conn_other = ''10.0.0.2/32''"
    by (simp add: conn_other_def)
  have rr: "renew_reads env0 req_renew_other_ip auth0 cfg0 role0
     ''instance-1'' ''org-1'' ''space-1'' ''app-1'' ''10.0.0.1''"
    unfolding renew_reads_def
    apply (intro conjI)
      apply (simp add: deployment_defs)
     apply (simp add: req_renew_other_ip_def req_renew_def)
    apply (rule exI [of _ "''my-role''"])
    apply (rule exI [of _ "\<lparr>Name = ''app-1'',
         Metadata = [''org_id'' \<mapsto> ''org-1'', ''app_id'' \<mapsto> ''app-1'',
                     ''space_id'' \<mapsto> ''space-1'']\<rparr>"])
    apply (simp add: getOrErr_def deployment_defs)
    done
  have nc: "NewPCFCertificate env0 ''instance-1'' ''org-1'' ''space-1'' ''app-1'' ''10.0.0.1''
              = (Some cert0, None)"
    by (simp add: deployment_defs IP_Equal_def v4InV6Prefix_def)
  have rc: "ReqConnection req_renew_other_ip = Some conn_other"
    by (simp add: req_renew_other_ip_def)
  have w: "role_noip = role0\<lparr>DisableIPMatching := True\<rparr>"
    by (simp add: role_noip_def)
  from ip_matching [where role = role0 and c = cert0 and e = env0 and addr = "''10.0.0.2/32''"
             and cfg = cfg0 and req = req_other_ip and conn = conn_other
             and req' = req_renew_other_ip and auth = auth0 and cfg' = cfg0 and role' = role0
             and iid = "''instance-1''" and oid = "''org-1''" and sid = "''space-1''"
             and aid = "''app-1''" and ipAddr = "''10.0.0.1''" and c' = cert0 and err = None
             and conn' = conn_other]
       ip_matching [where role = role0 and c = cert0 and e = env0 and addr = "''10.0.0.1/32''"
             and cfg = cfg0]
       ip_matching [where role = role_noip and c = cert0 and e = env0 and addr = "''10.0.0.2/32''"
             and cfg = cfg0 and p = "ParseIP env0" and ip = "IPAddress cert0"
             and addr' = "''10.0.0.1/32''"]
       n d q v r c rr nc rc w
  show ?thesis by simp
qed

subsection \<open>Bound lists\<close>

text \<open>
  Claim C7. A value meets a bound list exactly when the list is empty or contains the
  value (compared as strings). For the instance, application, organisation and space ID
  in this order, after the IP check: the first ID that is not in its non-empty list makes
  \<open>validate\<close> return the violation naming that field, and a login hands it to the
  caller; \<open>validate\<close> passes, and a login issues an \<open>Auth\<close>, only if all four IDs
  meet their lists. Neither depends on the signature or the chain, which \<open>validate\<close>
  does not see.
\<close>

theorem bound_constraints:
  "(meetsBoundConstraints v cs \<longleftrightarrow> cs = [] \<or> v \<in> set cs) \<and>
   (validate e cfg role c addr = None \<longrightarrow>
      (BoundInstanceIDs role = [] \<or> InstanceID c \<in> set (BoundInstanceIDs role)) \<and>
      (BoundAppIDs role = [] \<or> AppID c \<in> set (BoundAppIDs role)) \<and>
      (BoundOrgIDs role = [] \<or> OrgID c \<in> set (BoundOrgIDs role)) \<and>
      (BoundSpaceIDs role = [] \<or> SpaceID c \<in> set (BoundSpaceIDs role))) \<and>
   (DisableIPMatching role \<or> matchesIPAddress e addr (IPAddress c) \<longrightarrow>
      (\<not> meetsBoundConstraints (InstanceID c) (BoundInstanceIDs role) \<longrightarrow>
         validate e cfg role c addr
           = Some (InstanceIDMismatch (InstanceID c) (BoundInstanceIDs role))) \<and>
      (meetsBoundConstraints (InstanceID c) (BoundInstanceIDs role) \<and>
       \<not> meetsBoundConstraints (AppID c) (BoundAppIDs role) \<longrightarrow>
         validate e cfg role c addr = Some (AppIDMismatch (AppID c) (BoundAppIDs role))) \<and>
      (meetsBoundConstraints (InstanceID c) (BoundInstanceIDs role) \<and>
       meetsBoundConstraints (AppID c) (BoundAppIDs role) \<and>
       \<not> meetsBoundConstraints (OrgID c) (BoundOrgIDs role) \<longrightarrow>
         validate e cfg role c addr = Some (OrgIDMismatch (OrgID c) (BoundOrgIDs role))) \<and>
      (meetsBoundConstraints (InstanceID c) (BoundInstanceIDs role) \<and>
       meetsBoundConstraints (AppID c) (BoundAppIDs role) \<and>
       meetsBoundConstraints (OrgID c) (BoundOrgIDs role) \<and>
       \<not> meetsBoundConstraints (SpaceID c) (BoundSpaceIDs role) \<longrightarrow>
         validate e cfg role c addr
           = Some (SpaceIDMismatch (SpaceID c) (BoundSpaceIDs role)))) \<and>
   (login_reaches_validate e req role cfg c conn \<and>
    validate e cfg role c (RemoteAddr conn) = Some err \<longrightarrow>
      operationLoginUpdate e req = ErrorResponse err) \<and>
   (operationLoginUpdate e req = AuthResponse auth \<longrightarrow>
      (\<exists>role' cfg' c' conn'.
         login_reaches_validate e req role' cfg' c' conn' \<and>
         (BoundInstanceIDs role' = [] \<or> InstanceID c' \<in> set (BoundInstanceIDs role')) \<and>
         (BoundAppIDs role' = [] \<or> AppID c' \<in> set (BoundAppIDs role')) \<and>
         (BoundOrgIDs role' = [] \<or> OrgID c' \<in> set (BoundOrgIDs role')) \<and>
         (BoundSpaceIDs role' = [] \<or> SpaceID c' \<in> set (BoundSpaceIDs role'))))"
proof (intro conjI)
  show "operationLoginUpdate e req = AuthResponse auth \<longrightarrow>
      (\<exists>role' cfg' c' conn'.
         login_reaches_validate e req role' cfg' c' conn' \<and>
         (BoundInstanceIDs role' = [] \<or> InstanceID c' \<in> set (BoundInstanceIDs role')) \<and>
         (BoundAppIDs role' = [] \<or> AppID c' \<in> set (BoundAppIDs role')) \<and>
         (BoundOrgIDs role' = [] \<or> OrgID c' \<in> set (BoundOrgIDs role')) \<and>
         (BoundSpaceIDs role' = [] \<or> SpaceID c' \<in> set (BoundSpaceIDs role')))"
    using login_Auth_bounds [of e req auth] by blast
  show "meetsBoundConstraints v cs \<longleftrightarrow> cs = [] \<or> v \<in> set cs"
    by (rule meetsBoundConstraints_iff)
  show "validate e cfg role c addr = None \<longrightarrow>
      (BoundInstanceIDs role = [] \<or> InstanceID c \<in> set (BoundInstanceIDs role)) \<and>
      (BoundAppIDs role = [] \<or> AppID c \<in> set (BoundAppIDs role)) \<and>
      (BoundOrgIDs role = [] \<or> OrgID c \<in> set (BoundOrgIDs role)) \<and>
      (BoundSpaceIDs role = [] \<or> SpaceID c \<in> set (BoundSpaceIDs role))"
    by (simp add: validate_None_iff meetsBoundConstraints_iff)
  show "DisableIPMatching role \<or> matchesIPAddress e addr (IPAddress c) \<longrightarrow>
      (\<not> meetsBoundConstraints (InstanceID c) (BoundInstanceIDs role) \<longrightarrow>
         validate e cfg role c addr
           = Some (InstanceIDMismatch (InstanceID c) (BoundInstanceIDs role))) \<and>
      (meetsBoundConstraints (InstanceID c) (BoundInstanceIDs role) \<and>
       \<not> meetsBoundConstraints (AppID c) (BoundAppIDs role) \<longrightarrow>
         validate e cfg role c addr = Some (AppIDMismatch (AppID c) (BoundAppIDs role))) \<and>
      (meetsBoundConstraints (InstanceID c) (BoundInstanceIDs role) \<and>
       meetsBoundConstraints (AppID c) (BoundAppIDs role) \<and>
       \<not> meetsBoundConstraints (OrgID c) (BoundOrgIDs role) \<longrightarrow>
         validate e cfg role c addr = Some (OrgIDMismatch (OrgID c) (BoundOrgIDs role))) \<and>
      (meetsBoundConstraints (InstanceID c) (BoundInstanceIDs role) \<and>
       meetsBoundConstraints (AppID c) (BoundAppIDs role) \<and>
       meetsBoundConstraints (OrgID c) (BoundOrgIDs role) \<and>
       \<not> meetsBoundConstraints (SpaceID c) (BoundSpaceIDs role) \<longrightarrow>
         validate e cfg role c addr
           = Some (SpaceIDMismatch (SpaceID c) (BoundSpaceIDs role)))"
    by (auto simp: validate_def)
  show "login_reaches_validate e req role cfg c conn \<and>
    validate e cfg role c (RemoteAddr conn) = Some err \<longrightarrow>
      operationLoginUpdate e req = ErrorResponse err"
  proof
    assume a: "login_reaches_validate e req role cfg c conn \<and>
      validate e cfg role c (RemoteAddr conn) = Some err"
    then have "login_reaches_validate e req role cfg c conn" by simp
    from login_validate [OF this] a show "operationLoginUpdate e req = ErrorResponse err"
      by simp
  qed
qed

theorem bound_constraints_witness:
  "(DisableIPMatching role_app1 \<or>
      matchesIPAddress env_app (RemoteAddr conn0) (IPAddress cert_app2)) \<and>
   meetsBoundConstraints (InstanceID cert_app2) (BoundInstanceIDs role_app1) \<and>
   \<not> meetsBoundConstraints (AppID cert_app2) (BoundAppIDs role_app1) \<and>
   validate env_app cfg0 role_app1 cert_app2 (RemoteAddr conn0)
     = Some (AppIDMismatch ''app-2'' [''app-1'']) \<and>
   login_reaches_validate env_app req0 role_app1 cfg0 cert_app2 conn0 \<and>
   operationLoginUpdate env_app req0 = ErrorResponse (AppIDMismatch ''app-2'' [''app-1'']) \<and>
   validate env0 cfg0 role0 cert0 (RemoteAddr conn0) = None \<and>
   BoundAppIDs role0 = []"
proof -
  have m: "matchesIPAddress env_app (RemoteAddr conn0) (IPAddress cert_app2)"
    by (simp add: matchesIPAddress_def env_app_def cert_app2_def deployment_defs
        IP_Equal_def v4InV6Prefix_def)
  have i: "meetsBoundConstraints (InstanceID cert_app2) (BoundInstanceIDs role_app1)"
    by (simp add: meetsBoundConstraints_def role_app1_def role0_def)
  have a: "\<not> meetsBoundConstraints (AppID cert_app2) (BoundAppIDs role_app1)"
    by (simp add: meetsBoundConstraints_def role_app1_def cert_app2_def)
  have f: "AppID cert_app2 = ''app-2''" "BoundAppIDs role_app1 = [''app-1'']"
    "BoundAppIDs role0 = []"
    by (simp_all add: cert_app2_def role_app1_def role0_def)
  have r: "login_reaches_validate env_app req0 role_app1 cfg0 cert_app2 conn0"
    unfolding login_reaches_validate_def
    apply (rule exI [of _ 1000000000000])
    apply (rule exI [of _ "Certificate ''intermediate''"])
    apply (rule exI [of _ "Certificate ''identity''"])
    apply (rule exI [of _ "Certificate ''identity''"])
    apply (simp add: login_reaches_verify_def login_reaches_window_def env_app_def
        role_app1_def deployment_defs check_defs)
    done
  have v0: "validate env0 cfg0 role0 cert0 (RemoteAddr conn0) = None"
    by (simp add: deployment_defs check_defs)
  note b = bound_constraints [where e = env_app and cfg = cfg0 and role = role_app1
         and c = cert_app2 and addr = "RemoteAddr conn0" and req = req0 and conn = conn0
         and err = "AppIDMismatch ''app-2'' [''app-1'']"]
  from b m i a have "validate env_app cfg0 role_app1 cert_app2 (RemoteAddr conn0)
     = Some (AppIDMismatch (AppID cert_app2) (BoundAppIDs role_app1))"
    by blast
  then have v: "validate env_app cfg0 role_app1 cert_app2 (RemoteAddr conn0)
     = Some (AppIDMismatch ''app-2'' [''app-1''])"
    by (simp add: f)
  from b r v have l: "operationLoginUpdate env_app req0
     = ErrorResponse (AppIDMismatch ''app-2'' [''app-1''])"
    by blast
  from m i a v r l v0 f show ?thesis by simp
qed

subsection \<open>The inventory cross-check\<close>

text \<open>
  Claim C8. \<open>validate\<close> passes only if the PCF API returned the application, the
  organisation and the space, each with the requested guid, the application in the
  certificate's space with at least one instance, and the space in the certificate's
  organisation. Once the constraints are met, an error of the client or of a lookup is
  returned as it is, a mismatching guid as the corresponding mismatch, and an application
  with no instance as the no-live-instances error; a login hands each of them to the
  caller and issues no \<open>Auth\<close>.
\<close>

theorem inventory_cross_check:
  "(validate e cfg role c addr = None \<longrightarrow>
      (\<exists>client app org space.
         NewPCFClient e cfg = Inr client \<and>
         AppByGuid client (AppID c) = Inr app \<and>
         AppGuid app = AppID c \<and> AppSpaceGuid app = SpaceID c \<and> 0 < Instances app \<and>
         GetOrgByGuid client (OrgID c) = Inr org \<and> OrgGuid org = OrgID c \<and>
         GetSpaceByGuid client (SpaceID c) = Inr space \<and>
         SpaceGuid space = SpaceID c \<and> OrganizationGuid space = OrgID c)) \<and>
   (constraints_met e role c addr \<and> NewPCFClient e cfg = Inl err \<longrightarrow>
      validate e cfg role c addr = Some err) \<and>
   (constraints_met e role c addr \<and> NewPCFClient e cfg = Inr client \<longrightarrow>
      (AppByGuid client (AppID c) = Inl err \<longrightarrow> validate e cfg role c addr = Some err) \<and>
      (AppByGuid client (AppID c) = Inr app \<longrightarrow>
         (AppGuid app \<noteq> AppID c \<longrightarrow>
            validate e cfg role c addr = Some (CertAppIDNotAPIs (AppID c) (AppGuid app))) \<and>
         (AppGuid app = AppID c \<and> AppSpaceGuid app \<noteq> SpaceID c \<longrightarrow>
            validate e cfg role c addr
              = Some (CertSpaceIDNotAPIs (SpaceID c) (AppSpaceGuid app))) \<and>
         (AppGuid app = AppID c \<and> AppSpaceGuid app = SpaceID c \<and> Instances app \<le> 0 \<longrightarrow>
            validate e cfg role c addr = Some NoLiveInstances) \<and>
         (AppGuid app = AppID c \<and> AppSpaceGuid app = SpaceID c \<and> 0 < Instances app \<longrightarrow>
            (GetOrgByGuid client (OrgID c) = Inl err \<longrightarrow>
               validate e cfg role c addr = Some err) \<and>
            (GetOrgByGuid client (OrgID c) = Inr org \<longrightarrow>
               (OrgGuid org \<noteq> OrgID c \<longrightarrow>
                  validate e cfg role c addr
                    = Some (CertOrgIDNotAPIs (OrgID c) (OrgGuid org))) \<and>
               (OrgGuid org = OrgID c \<longrightarrow>
                  (GetSpaceByGuid client (SpaceID c) = Inl err \<longrightarrow>
                     validate e cfg role c addr = Some err) \<and>
                  (GetSpaceByGuid client (SpaceID c) = Inr space \<longrightarrow>
                     (SpaceGuid space \<noteq> SpaceID c \<longrightarrow>
                        validate e cfg role c addr
                          = Some (CertSpaceIDNotAPIs (SpaceID c) (SpaceGuid space))) \<and>
                     (SpaceGuid space = SpaceID c \<and> OrganizationGuid space \<noteq> OrgID c \<longrightarrow>
                        validate e cfg role c addr
                          = Some (CertOrgIDNotAPIs (OrgID c) (OrganizationGuid space))))))))) \<and>
   (login_reaches_validate e req role cfg c conn \<and>
    validate e cfg role c (RemoteAddr conn) = Some err \<longrightarrow>
      operationLoginUpdate e req = ErrorResponse err)"
proof (intro conjI)
  show "validate e cfg role c addr = None \<longrightarrow>
      (\<exists>client app org space.
         NewPCFClient e cfg = Inr client \<and>
         AppByGuid client (AppID c) = Inr app \<and>
         AppGuid app = AppID c \<and> AppSpaceGuid app = SpaceID c \<and> 0 < Instances app \<and>
         GetOrgByGuid client (OrgID c) = Inr org \<and> OrgGuid org = OrgID c \<and>
         GetSpaceByGuid client (SpaceID c) = Inr space \<and>
         SpaceGuid space = SpaceID c \<and> OrganizationGuid space = OrgID c)"
    by (simp add: validate_None_iff)
  show "constraints_met e role c addr \<and> NewPCFClient e cfg = Inl err \<longrightarrow>
      validate e cfg role c addr = Some err"
    by (auto simp: validate_def constraints_met_def)
  show "login_reaches_validate e req role cfg c conn \<and>
    validate e cfg role c (RemoteAddr conn) = Some err \<longrightarrow>
      operationLoginUpdate e req = ErrorResponse err"
  proof
    assume a: "login_reaches_validate e req role cfg c conn \<and>
      validate e cfg role c (RemoteAddr conn) = Some err"
    then have "login_reaches_validate e req role cfg c conn" by simp
    from login_validate [OF this] a show "operationLoginUpdate e req = ErrorResponse err"
      by simp
  qed
  show "constraints_met e role c addr \<and> NewPCFClient e cfg = Inr client \<longrightarrow>
      (AppByGuid client (AppID c) = Inl err \<longrightarrow> validate e cfg role c addr = Some err) \<and>
      (AppByGuid client (AppID c) = Inr app \<longrightarrow>
         (AppGuid app \<noteq> AppID c \<longrightarrow>
            validate e cfg role c addr = Some (CertAppIDNotAPIs (AppID c) (AppGuid app))) \<and>
         (AppGuid app = AppID c \<and> AppSpaceGuid app \<noteq> SpaceID c \<longrightarrow>
            validate e cfg role c addr
              = Some (CertSpaceIDNotAPIs (SpaceID c) (AppSpaceGuid app))) \<and>
         (AppGuid app = AppID c \<and> AppSpaceGuid app = SpaceID c \<and> Instances app \<le> 0 \<longrightarrow>
            validate e cfg role c addr = Some NoLiveInstances) \<and>
         (AppGuid app = AppID c \<and> AppSpaceGuid app = SpaceID c \<and> 0 < Instances app \<longrightarrow>
            (GetOrgByGuid client (OrgID c) = Inl err \<longrightarrow>
               validate e cfg role c addr = Some err) \<and>
            (GetOrgByGuid client (OrgID c) = Inr org \<longrightarrow>
               (OrgGuid org \<noteq> OrgID c \<longrightarrow>
                  validate e cfg role c addr
                    = Some (CertOrgIDNotAPIs (OrgID c) (OrgGuid org))) \<and>
               (OrgGuid org = OrgID c \<longrightarrow>
                  (GetSpaceByGuid client (SpaceID c) = Inl err \<longrightarrow>
                     validate e cfg role c addr = Some err) \<and>
                  (GetSpaceByGuid client (SpaceID c) = Inr space \<longrightarrow>
                     (SpaceGuid space \<noteq> SpaceID c \<longrightarrow>
                        validate e cfg role c addr
                          = Some (CertSpaceIDNotAPIs (SpaceID c) (SpaceGuid space))) \<and>
                     (SpaceGuid space = SpaceID c \<and> OrganizationGuid space \<noteq> OrgID c \<longrightarrow>
                        validate e cfg role c addr
                          = Some (CertOrgIDNotAPIs (OrgID c) (OrganizationGuid space))))))))"
    by (auto simp: validate_def constraints_met_def)
qed


theorem inventory_cross_check_witness:
  "constraints_met env_no_instances role0 cert0 (RemoteAddr conn0) \<and>
   NewPCFClient env_no_instances cfg0 = Inr client_no_instances \<and>
   AppByGuid client_no_instances (AppID cert0) = Inr app_no_instances \<and>
   AppGuid app_no_instances = AppID cert0 \<and>
   AppSpaceGuid app_no_instances = SpaceID cert0 \<and>
   Instances app_no_instances \<le> 0 \<and>
   validate env_no_instances cfg0 role0 cert0 (RemoteAddr conn0) = Some NoLiveInstances \<and>
   login_reaches_validate env_no_instances req0 role0 cfg0 cert0 conn0 \<and>
   operationLoginUpdate env_no_instances req0 = ErrorResponse NoLiveInstances \<and>
   constraints_met env_api_down role0 cert0 (RemoteAddr conn0) \<and>
   NewPCFClient env_api_down cfg0 = Inr client_down \<and>
   AppByGuid client_down (AppID cert0) = Inl (Text ''connection refused'') \<and>
   validate env_api_down cfg0 role0 cert0 (RemoteAddr conn0)
     = Some (Text ''connection refused'') \<and>
   login_reaches_validate env_api_down req0 role0 cfg0 cert0 conn0 \<and>
   operationLoginUpdate env_api_down req0 = ErrorResponse (Text ''connection refused'')"
proof -
  have c: "constraints_met env_no_instances role0 cert0 (RemoteAddr conn0)"
    "constraints_met env_api_down role0 cert0 (RemoteAddr conn0)"
    by (simp_all add: constraints_met_def env_no_instances_def env_api_down_def
        deployment_defs check_defs)
  have n: "NewPCFClient env_no_instances cfg0 = Inr client_no_instances"
    "NewPCFClient env_api_down cfg0 = Inr client_down"
    by (simp_all add: env_no_instances_def env_api_down_def)
  have a: "AppByGuid client_no_instances (AppID cert0) = Inr app_no_instances"
    "AppByGuid client_down (AppID cert0) = Inl (Text ''connection refused'')"
    by (simp_all add: client_no_instances_def client_down_def)
  have g: "AppGuid app_no_instances = AppID cert0"
    "AppSpaceGuid app_no_instances = SpaceID cert0" "Instances app_no_instances \<le> 0"
    by (simp_all add: app_no_instances_def cert0_def)
  have r1: "login_reaches_validate env_no_instances req0 role0 cfg0 cert0 conn0"
    unfolding login_reaches_validate_def
    apply (rule exI [of _ 1000000000000])
    apply (rule exI [of _ "Certificate ''intermediate''"])
    apply (rule exI [of _ "Certificate ''identity''"])
    apply (rule exI [of _ "Certificate ''identity''"])
    apply (simp add: login_reaches_verify_def login_reaches_window_def env_no_instances_def
        deployment_defs check_defs)
    done
  have r2: "login_reaches_validate env_api_down req0 role0 cfg0 cert0 conn0"
    unfolding login_reaches_validate_def
    apply (rule exI [of _ 1000000000000])
    apply (rule exI [of _ "Certificate ''intermediate''"])
    apply (rule exI [of _ "Certificate ''identity''"])
    apply (rule exI [of _ "Certificate ''identity''"])
    apply (simp add: login_reaches_verify_def login_reaches_window_def env_api_down_def
        deployment_defs check_defs)
    done
  note r = r1 r2
  note b1 = inventory_cross_check [where e = env_no_instances and cfg = cfg0 and role = role0 and c = cert0
      and addr = "RemoteAddr conn0" and client = client_no_instances
      and app = app_no_instances and req = req0 and conn = conn0 and err = NoLiveInstances]
  note b2 = inventory_cross_check [where e = env_api_down and cfg = cfg0 and role = role0 and c = cert0
      and addr = "RemoteAddr conn0" and client = client_down
      and req = req0 and conn = conn0 and err = "Text ''connection refused''"]
  from b1 c(1) n(1) a(1) g
  have v1: "validate env_no_instances cfg0 role0 cert0 (RemoteAddr conn0) = Some NoLiveInstances"
    by blast
  from b1 r(1) v1
  have l1: "operationLoginUpdate env_no_instances req0 = ErrorResponse NoLiveInstances"
    by blast
  from b2 c(2) n(2) a(2)
  have v2: "validate env_api_down cfg0 role0 cert0 (RemoteAddr conn0)
     = Some (Text ''connection refused'')"
    by blast
  from b2 r(2) v2
  have l2: "operationLoginUpdate env_api_down req0 = ErrorResponse (Text ''connection refused'')"
    by blast
  from c n a g r v1 l1 v2 l2 show ?thesis by simp
qed

subsection \<open>The metadata stored by a login, read by a renewal\<close>

text \<open>
  Claim C9. When a login succeeds for an identity with a non-empty instance ID and IP
  address text, the six reads of \<open>pathLoginRenew\<close> on the \<open>Auth\<close> it issued return the
  role name of the login and the instance, IP address (as text), organisation, space and
  application ID of the certificate, and the renewal of any request carrying that
  \<open>Auth\<close> hands exactly these to \<open>NewPCFCertificate\<close> and evaluates \<open>validate\<close> on the
  certificate it gets, with the role and the configuration of the login.
\<close>

theorem stored_metadata_round_trip:
  assumes "login_reaches_validate e req role cfg c conn"
    and "validate e cfg role c (RemoteAddr conn) = None"
    and "InstanceID c \<noteq> []"
    and "IP_String e (IPAddress c) \<noteq> []"
  shows "\<exists>auth alias.
           operationLoginUpdate e req = AuthResponse auth \<and>
           AuthAlias auth = Some alias \<and>
           getOrErr ''role'' (MapIfc (InternalData auth)) = Inr (data_role req) \<and>
           getOrErr ''instance_id'' (MapIfc (InternalData auth)) = Inr (InstanceID c) \<and>
           getOrErr ''ip_address'' (MapIfc (InternalData auth))
             = Inr (IP_String e (IPAddress c)) \<and>
           getOrErr ''org_id'' (MapStr (Metadata alias)) = Inr (OrgID c) \<and>
           getOrErr ''space_id'' (MapStr (Metadata alias)) = Inr (SpaceID c) \<and>
           getOrErr ''app_id'' (MapStr (Metadata alias)) = Inr (AppID c) \<and>
           (\<forall>req'. ReqAuth req' = Some auth \<longrightarrow>
              pathLoginRenew e req' =
                (case NewPCFCertificate e (InstanceID c) (OrgID c) (SpaceID c) (AppID c)
                        (IP_String e (IPAddress c)) of
                   (pcfCert, err) \<Rightarrow>
                (case ReqConnection req' of
                   None \<Rightarrow> Panic
                 | Some conn' \<Rightarrow>
                (case pcfCert of
                   None \<Rightarrow> Panic
                 | Some cert \<Rightarrow>
                (case validate e cfg role cert (RemoteAddr conn') of
                   Some err \<Rightarrow> ErrorResponse err
                 | None \<Rightarrow>
                AuthResponse
                  (auth\<lparr>TTL := TokenTTL role, MaxTTL := TokenMaxTTL role,
                        Period := TokenPeriod role\<rparr>))))))"
proof -
  let ?al = "\<lparr>Name = AppID c,
                 Metadata = [''org_id'' \<mapsto> OrgID c, ''app_id'' \<mapsto> AppID c,
                             ''space_id'' \<mapsto> SpaceID c]\<rparr>"
  let ?auth = "PopulateTokenAuth role
                 \<lparr>InternalData =
                    [''role'' \<mapsto> IStr (data_role req),
                     ''instance_id'' \<mapsto> IStr (InstanceID c),
                     ''ip_address'' \<mapsto> IStr (IP_String e (IPAddress c))],
                  DisplayName = InstanceID c,
                  AuthAlias = Some ?al,
                  TTL = 0, MaxTTL = 0, Period = 0\<rparr>"
  from assms(1) have w: "data_role req \<noteq> []" "getRole e (data_role req) = Inr (Some role)"
    "config e = Inr (Some cfg)"
    by (auto simp: login_reaches_validate_def login_reaches_verify_def login_reaches_window_def)
  have l: "operationLoginUpdate e req = AuthResponse ?auth"
    using login_validate [OF assms(1)] assms(2) by simp
  have a: "AuthAlias ?auth = Some ?al"
    by (simp add: PopulateTokenAuth_def)
  have g: "getOrErr ''role'' (MapIfc (InternalData ?auth)) = Inr (data_role req)"
    "getOrErr ''instance_id'' (MapIfc (InternalData ?auth)) = Inr (InstanceID c)"
    "getOrErr ''ip_address'' (MapIfc (InternalData ?auth)) = Inr (IP_String e (IPAddress c))"
    "getOrErr ''org_id'' (MapStr (Metadata ?al)) = Inr (OrgID c)"
    "getOrErr ''space_id'' (MapStr (Metadata ?al)) = Inr (SpaceID c)"
    "getOrErr ''app_id'' (MapStr (Metadata ?al)) = Inr (AppID c)"
    using w(1) assms(3,4) by (simp_all add: getOrErr_def PopulateTokenAuth_def)
  have r: "pathLoginRenew e req' =
                (case NewPCFCertificate e (InstanceID c) (OrgID c) (SpaceID c) (AppID c)
                        (IP_String e (IPAddress c)) of
                   (pcfCert, err) \<Rightarrow>
                (case ReqConnection req' of
                   None \<Rightarrow> Panic
                 | Some conn' \<Rightarrow>
                (case pcfCert of
                   None \<Rightarrow> Panic
                 | Some cert \<Rightarrow>
                (case validate e cfg role cert (RemoteAddr conn') of
                   Some err \<Rightarrow> ErrorResponse err
                 | None \<Rightarrow>
                AuthResponse
                  (?auth\<lparr>TTL := TokenTTL role, MaxTTL := TokenMaxTTL role,
                        Period := TokenPeriod role\<rparr>)))))"
    if "ReqAuth req' = Some ?auth" for req'
  proof -
    have "renew_reads e req' ?auth cfg role (InstanceID c) (OrgID c) (SpaceID c) (AppID c)
            (IP_String e (IPAddress c))"
      unfolding renew_reads_def using that w g a by blast
    from renew_validate [OF this] show ?thesis .
  qed
  from l a g r show ?thesis by blast
qed

theorem stored_metadata_round_trip_witness:
  "login_reaches_validate env0 req0 role0 cfg0 cert0 conn0 \<and>
   validate env0 cfg0 role0 cert0 (RemoteAddr conn0) = None \<and>
   InstanceID cert0 \<noteq> [] \<and>
   IP_String env0 (IPAddress cert0) \<noteq> [] \<and>
   operationLoginUpdate env0 req0 = AuthResponse auth0 \<and>
   ReqAuth req_renew = Some auth0 \<and>
   NewPCFCertificate env0 (InstanceID cert0) (OrgID cert0) (SpaceID cert0) (AppID cert0)
     (IP_String env0 (IPAddress cert0)) = (Some cert0, None) \<and>
   pathLoginRenew env0 req_renew = AuthResponse auth0"
proof -
  have v: "validate env0 cfg0 role0 cert0 (RemoteAddr conn0) = None"
    by (simp add: deployment_defs check_defs)
  have i: "InstanceID cert0 \<noteq> []" "IP_String env0 (IPAddress cert0) \<noteq> []"
    by (simp_all add: deployment_defs IP_Equal_def v4InV6Prefix_def)
  have l: "operationLoginUpdate env0 req0 = AuthResponse auth0"
    by (simp add: operationLoginUpdate_def deployment_defs check_defs)
  have q: "ReqAuth req_renew = Some auth0" "ReqConnection req_renew = Some conn0"
    by (simp_all add: req_renew_def)
  have n: "NewPCFCertificate env0 (InstanceID cert0) (OrgID cert0) (SpaceID cert0)
             (AppID cert0) (IP_String env0 (IPAddress cert0)) = (Some cert0, None)"
    by (simp add: deployment_defs IP_Equal_def v4InV6Prefix_def)
  have t: "auth0\<lparr>TTL := TokenTTL role0, MaxTTL := TokenMaxTTL role0,
                  Period := TokenPeriod role0\<rparr> = auth0"
    by (simp add: auth0_def role0_def)
  from stored_metadata_round_trip [OF reaches_validate_env0 v i] l q(1)
  have "pathLoginRenew env0 req_renew =
          (case NewPCFCertificate env0 (InstanceID cert0) (OrgID cert0) (SpaceID cert0)
                  (AppID cert0) (IP_String env0 (IPAddress cert0)) of
             (pcfCert, err) \<Rightarrow>
          (case ReqConnection req_renew of
             None \<Rightarrow> Panic
           | Some conn' \<Rightarrow>
          (case pcfCert of
             None \<Rightarrow> Panic
           | Some cert \<Rightarrow>
          (case validate env0 cfg0 role0 cert (RemoteAddr conn') of
             Some err \<Rightarrow> ErrorResponse err
           | None \<Rightarrow>
          AuthResponse
            (auth0\<lparr>TTL := TokenTTL role0, MaxTTL := TokenMaxTTL role0,
                   Period := TokenPeriod role0\<rparr>)))))"
    by auto
  then have "pathLoginRenew env0 req_renew = AuthResponse auth0"
    by (simp add: n q(2) v t)
  with reaches_validate_env0 v i l q(1) n show ?thesis by simp
qed

subsection \<open>The order of the steps of a login\<close>





subsection \<open>The time window\<close>

text \<open>
  Claim C5, as stated, for every configuration. It fails in two corners. With the least
  \<open>int64\<close> as maximal age the negation on line 130 wraps: a request signed at the time
  of receipt lies before \<open>receipt_time - max_signing_age\<close> and is issued an \<open>Auth\<close>.
  With a negative skew a signing time can lie after the upper bound and before the lower
  one: the request signed at 993 s is answered with the too-old error, which is checked
  first, not with the too-far-in-the-future error.
\<close>

theorem replay_window_counterexample:
  "sint (LoginMaxSecOld cfg_minint) = - 9223372036854775808 \<and>
   parseTime env_minint (data_signing_time req0) = Inr 1000000000000 \<and>
   (1000000000000 :: int) < Now env_minint - sint (LoginMaxSecOld cfg_minint) \<and>
   operationLoginUpdate env_minint req0 = AuthResponse auth0 \<and>
   parseTime env_negskew (data_signing_time req_between) = Inr 993000000000 \<and>
   Now env_negskew + sint (LoginMaxSecAhead cfg_negskew) < (993000000000 :: int) \<and>
   operationLoginUpdate env_negskew req_between
     = ErrorResponse (RequestTooOld 993000000000 1000000000000 5)"
  by (simp add: operationLoginUpdate_def env_minint_def cfg_minint_def env_negskew_def
      cfg_negskew_def req_between_def deployment_defs check_defs go_div_def Second_def)

lemma sint_neg:
  fixes d :: "64 word"
  assumes "sint d \<noteq> - (2 ^ 63)"
  shows "sint (- 1 * d) = - sint d"
proof -
  have "- (2 ^ 63) \<le> sint d" "sint d < 2 ^ 63"
    using sint_ge [of d] sint_lt [of d] by simp_all
  with assms have "- (2 ^ 63) \<le> - sint d \<and> - sint d < 2 ^ 63"
    by linarith
  then have "signed_take_bit 63 (- sint d) = - sint d"
    by (simp add: signed_take_bit_int_eq_self_iff)
  then show ?thesis
    by (simp add: sint_word_ariths)
qed

lemma window_bounds:
  assumes "sint (LoginMaxSecOld cfg) \<noteq> - (2 ^ 63)"
  shows "Before t (Add now (- LoginMaxSecOld cfg)) \<longleftrightarrow> t < now - sint (LoginMaxSecOld cfg)"
    and "After t (Add now (LoginMaxSecAhead cfg)) \<longleftrightarrow> now + sint (LoginMaxSecAhead cfg) < t"
  using sint_neg [OF assms] by (simp_all add: Before_def After_def Add_def)

text \<open>
  Claim C5, amended. For a login that has come as far as the time-window check, with a
  maximal age other than the least \<open>int64\<close>: a signing time before
  \<open>receipt_time - max_signing_age\<close> is answered with the too-old error; one after
  \<open>receipt_time + max_signing_skew_future\<close>, and not before the lower bound, with the
  too-far-in-the-future error; each error carries the signing time, the time of receipt
  and the configured bound in seconds. A signing time between the two bounds, both
  included, passes: the response is that of the rest of the handler, from the extraction
  of the certificates to the issued \<open>Auth\<close>.
\<close>

theorem replay_window_inclusive:
  assumes "login_reaches_window e req role signingTime cfg"
    and "sint (LoginMaxSecOld cfg) \<noteq> - (2 ^ 63)"
  shows "(signingTime < Now e - sint (LoginMaxSecOld cfg) \<longrightarrow>
            operationLoginUpdate e req =
              ErrorResponse (RequestTooOld signingTime (Now e)
                               (go_div (LoginMaxSecOld cfg) Second))) \<and>
         (Now e - sint (LoginMaxSecOld cfg) \<le> signingTime \<and>
          Now e + sint (LoginMaxSecAhead cfg) < signingTime \<longrightarrow>
            operationLoginUpdate e req =
              ErrorResponse (RequestTooFarInFuture signingTime (Now e)
                               (go_div (LoginMaxSecAhead cfg) Second))) \<and>
         (Now e - sint (LoginMaxSecOld cfg) \<le> signingTime \<and>
          signingTime \<le> Now e + sint (LoginMaxSecAhead cfg) \<longrightarrow>
            operationLoginUpdate e req =
              (case ExtractCertificates e (data_cf_instance_cert req) of
                 Inl err \<Rightarrow> ErrorResponse err
               | Inr (intermediateCert, identityCert) \<Rightarrow>
              (case Verify e (data_signature req)
                      \<lparr>SigningTime = signingTime, Role = data_role req,
                       CFInstanceCertContents = data_cf_instance_cert req\<rparr> of
                 Inl err \<Rightarrow> ErrorResponse err
               | Inr signingCert \<Rightarrow>
              (case Validate e (IdentityCACertificates cfg) intermediateCert identityCert
                      signingCert of
                 Some err \<Rightarrow> ErrorResponse err
               | None \<Rightarrow>
              (case NewPCFCertificateFromx509 e signingCert of
                 Inl err \<Rightarrow> Failure err
               | Inr pcfCert \<Rightarrow>
              (case ReqConnection req of
                 None \<Rightarrow> Panic
               | Some conn \<Rightarrow>
              (case validate e cfg role pcfCert (RemoteAddr conn) of
                 Some err \<Rightarrow> ErrorResponse err
               | None \<Rightarrow>
              AuthResponse
                (PopulateTokenAuth role
                   \<lparr>InternalData =
                      [''role'' \<mapsto> IStr (data_role req),
                       ''instance_id'' \<mapsto> IStr (InstanceID pcfCert),
                       ''ip_address'' \<mapsto> IStr (IP_String e (IPAddress pcfCert))],
                    DisplayName = InstanceID pcfCert,
                    AuthAlias = Some
                      \<lparr>Name = AppID pcfCert,
                       Metadata =
                         [''org_id'' \<mapsto> OrgID pcfCert,
                          ''app_id'' \<mapsto> AppID pcfCert,
                          ''space_id'' \<mapsto> SpaceID pcfCert]\<rparr>,
                    TTL = 0, MaxTTL = 0, Period = 0\<rparr>))))))))"
proof -
  note w = window_bounds [OF assms(2)]
  from assms(1) show ?thesis
    unfolding operationLoginUpdate_def login_reaches_window_def Let_def
    by (auto simp: w split: option.splits)
qed

theorem replay_window_inclusive_witness:
  "login_reaches_window env0 req_oldest role0 700000000000 cfg0 \<and>
   login_reaches_window env0 req_furthest role0 1060000000000 cfg0 \<and>
   login_reaches_window env0 req_too_old role0 699000000000 cfg0 \<and>
   login_reaches_window env0 req_too_far role0 1061000000000 cfg0 \<and>
   sint (LoginMaxSecOld cfg0) \<noteq> - (2 ^ 63) \<and>
   Now env0 - sint (LoginMaxSecOld cfg0) = 700000000000 \<and>
   Now env0 + sint (LoginMaxSecAhead cfg0) = 1060000000000 \<and>
   operationLoginUpdate env0 req_oldest = AuthResponse auth0 \<and>
   operationLoginUpdate env0 req_furthest = AuthResponse auth0 \<and>
   operationLoginUpdate env0 req_too_old =
     ErrorResponse (RequestTooOld 699000000000 1000000000000 300) \<and>
   operationLoginUpdate env0 req_too_far =
     ErrorResponse (RequestTooFarInFuture 1061000000000 1000000000000 60)"
proof -
  have r: "login_reaches_window env0 req_oldest role0 700000000000 cfg0"
    "login_reaches_window env0 req_furthest role0 1060000000000 cfg0"
    "login_reaches_window env0 req_too_old role0 699000000000 cfg0"
    "login_reaches_window env0 req_too_far role0 1061000000000 cfg0"
    by (simp_all add: login_reaches_window_def req_oldest_def req_furthest_def
        req_too_old_def req_too_far_def deployment_defs parseTime_def)
  have s: "sint (LoginMaxSecOld cfg0) \<noteq> - (2 ^ 63)"
    by (simp add: cfg0_def)
  have b: "Now env0 - sint (LoginMaxSecOld cfg0) = 700000000000"
    "Now env0 + sint (LoginMaxSecAhead cfg0) = 1060000000000"
    by (simp_all add: env0_def cfg0_def)
  have g: "go_div (LoginMaxSecOld cfg0) Second = 300" "go_div (LoginMaxSecAhead cfg0) Second = 60"
    "Now env0 = 1000000000000"
    by (simp_all add: env0_def cfg0_def go_div_def Second_def)
  have c1: "Now env0 - sint (LoginMaxSecOld cfg0) \<le> 700000000000 \<and>
            700000000000 \<le> Now env0 + sint (LoginMaxSecAhead cfg0)"
    and c2: "Now env0 - sint (LoginMaxSecOld cfg0) \<le> 1060000000000 \<and>
            1060000000000 \<le> Now env0 + sint (LoginMaxSecAhead cfg0)"
    and c3: "699000000000 < Now env0 - sint (LoginMaxSecOld cfg0)"
    and c4: "Now env0 - sint (LoginMaxSecOld cfg0) \<le> 1061000000000 \<and>
             Now env0 + sint (LoginMaxSecAhead cfg0) < 1061000000000"
    unfolding b by simp_all
  from replay_window_inclusive [OF r(3) s] c3 have "operationLoginUpdate env0 req_too_old =
     ErrorResponse (RequestTooOld 699000000000 (Now env0) (go_div (LoginMaxSecOld cfg0) Second))"
    by blast
  then have o: "operationLoginUpdate env0 req_too_old =
     ErrorResponse (RequestTooOld 699000000000 1000000000000 300)"
    by (simp add: g)
  from replay_window_inclusive [OF r(4) s] c4 have "operationLoginUpdate env0 req_too_far =
     ErrorResponse (RequestTooFarInFuture 1061000000000 (Now env0)
                      (go_div (LoginMaxSecAhead cfg0) Second))"
    by blast
  then have f: "operationLoginUpdate env0 req_too_far =
     ErrorResponse (RequestTooFarInFuture 1061000000000 1000000000000 60)"
    by (simp add: g)
  note e1 = replay_window_inclusive [OF r(1) s, THEN conjunct2, THEN conjunct2, THEN mp, OF c1]
  have lo: "operationLoginUpdate env0 req_oldest = AuthResponse auth0"
    unfolding e1 by (simp add: req_oldest_def deployment_defs check_defs)
  note e2 = replay_window_inclusive [OF r(2) s, THEN conjunct2, THEN conjunct2, THEN mp, OF c2]
  have hi: "operationLoginUpdate env0 req_furthest = AuthResponse auth0"
    unfolding e2 by (simp add: req_furthest_def deployment_defs check_defs)
  from r s b lo hi o f show ?thesis by simp
qed

subsection \<open>Renewal with a stored value that the constructor refuses\<close>

text \<open>A stored field that is missing ends the renewal with an error.\<close>

lemma renew_missing_field_fails:
  assumes "config e = Inr (Some cfg)"
    and "ReqAuth req = Some auth"
    and "AuthAlias auth = Some al"
    and "InternalData auth ''role'' = None \<or> InternalData auth ''instance_id'' = None \<or>
         InternalData auth ''ip_address'' = None \<or> Metadata al ''org_id'' = None \<or>
         Metadata al ''space_id'' = None \<or> Metadata al ''app_id'' = None"
  shows "\<exists>err. pathLoginRenew e req = Failure err"
  using assms unfolding pathLoginRenew_def getOrErr_def Let_def
  by (auto split: sum.splits option.splits ifc.splits)

text \<open>
  Whenever \<open>NewPCFCertificate\<close> returns no certificate, the renewal panics, whatever
  error came with it.
\<close>

lemma renew_drops_constructor_error:
  assumes "renew_reads e req auth cfg role instanceID orgID spaceID appID ipAddr"
    and "NewPCFCertificate e instanceID orgID spaceID appID ipAddr = (None, err)"
    and "ReqConnection req = Some conn"
  shows "pathLoginRenew e req = Panic"
  using renew_validate [OF assms(1)] assms(2,3) by simp

text \<open>
  An IP address that does not parse is not refused by the constructor: the certificate
  has the nil address, and the renewal is answered by the IP check of \<open>validate\<close>.
\<close>

lemma renew_bad_ip: "pathLoginRenew env0 req_renew_bad_ip = ErrorResponse NoMatchingIPAddress"
  by (simp add: pathLoginRenew_def getOrErr_def req_renew_bad_ip_def req_renew_def
      deployment_defs check_defs)

text \<open>
  Claim C3, at stored metadata whose organisation ID is the empty string, and at stored
  metadata whose IP address is \<open>0.0.0.0\<close>: \<open>getOrErr\<close> returns the value,
  \<open>NewPCFCertificate\<close> returns no certificate and an error, the error is dropped (line
  250), and the renewal ends in the nil dereference of \<open>validate\<close> instead of returning an
  error.
\<close>

theorem renew_refused_value_panics:
  "getOrErr ''org_id'' (MapStr (Metadata alias_empty_org)) = Inr [] \<and>
   NewPCFCertificate env0 ''instance-1'' [] ''space-1'' ''app-1'' ''10.0.0.1''
     = (None, Some (Text ''no org ID on given certificate'')) \<and>
   pathLoginRenew env0 req_renew_empty_org = Panic \<and>
   NewPCFCertificate env0 ''instance-1'' ''org-1'' ''space-1'' ''app-1'' ''0.0.0.0''
     = (None, Some (Text ''ip address is unspecified'')) \<and>
   pathLoginRenew env0 req_renew_unspecified_ip = Panic"
  by (simp add: pathLoginRenew_def getOrErr_def req_renew_empty_org_def alias_empty_org_def
      req_renew_unspecified_ip_def req_renew_def deployment_defs IP_Equal_def v4InV6Prefix_def)

end
